theory Spec2Isabelle
  imports Main "HOL-Library.Word" "HOL-Library.FSet" "HOL-Library.Char_ord"
    "HOL-Library.List_Lexorder"
begin

section \<open>Go values handled by the SageMaker flow definition resource\<close>

text \<open>
  A Go slice is either \<open>nil\<close> or a (possibly empty) sequence; \<open>len\<close> is 0 for both.
  The source tests \<open>len(l) == 0\<close> on its inputs and returns the non-nil empty literal
  \<open>[]map[string]interface{}{}\<close> from its flatten functions, so both are kept apart.
\<close>

datatype 'a slice = NilSlice | Slice "'a list"

fun len :: "'a slice \<Rightarrow> nat" where
  "len NilSlice = 0"
| "len (Slice xs) = length xs"

fun elems :: "'a slice \<Rightarrow> 'a list" where
  "elems NilSlice = []"
| "elems (Slice xs) = xs"

text \<open>
  The dynamic values an \<open>interface{}\<close> holds in this file. The dynamic type is part of
  the value: the source reads attributes with type assertions (\<open>.(string)\<close>, \<open>.(int)\<close>,
  \<open>.(*schema.Set)\<close>, \<open>.([]interface{})\<close>, \<open>.(map[string]interface{})\<close>), which tell
  \<open>int\<close> from \<open>int64\<close> and \<open>[]interface{}\<close> from \<open>[]map[string]interface{}\<close>.
  \<open>VStringPtr\<close> is a \<open>*string\<close> and \<open>VStringMap\<close> a \<open>map[string]string\<close>, both
  handed to \<open>d.Set\<close> by the read operation.
  Go's \<open>int\<close> is taken at its 64-bit width, so \<open>int64(v)\<close> keeps the bits.
  A \<open>*schema.Set\<close> of strings is a finite set of strings.
\<close>

datatype tfvalue =
    VNil
  | VString string
  | VInt "64 word"
  | VInt64 "64 word"
  | VSet "string fset"
  | VList "tfvalue slice"
  | VMapList "(string \<Rightarrow> tfvalue option) slice"
  | VMap "string \<Rightarrow> tfvalue option"
  | VStringPtr "string option"
  | VStringMap "string \<Rightarrow> string option"

type_synonym tfmap = "string \<Rightarrow> tfvalue option"

text \<open>A failed type assertion without the \<open>ok\<close> result, and an index out of range, panic.\<close>

datatype panic = Panic

type_synonym 'a result = "panic + 'a"

text \<open>\<open>m[k].(string)\<close>: a missing key reads as the nil interface, which is no string.\<close>

fun assertString :: "tfvalue option \<Rightarrow> string result" where
  "assertString (Some (VString s)) = Inr s"
| "assertString _ = Inl Panic"

fun assertInt :: "tfvalue option \<Rightarrow> 64 word result" where
  "assertInt (Some (VInt n)) = Inr n"
| "assertInt _ = Inl Panic"

fun assertList :: "tfvalue option \<Rightarrow> tfvalue slice result" where
  "assertList (Some (VList l)) = Inr l"
| "assertList _ = Inl Panic"

fun assertMap :: "tfvalue \<Rightarrow> tfmap result" where
  "assertMap (VMap m) = Inr m"
| "assertMap _ = Inl Panic"

text \<open>The two-result forms \<open>v, ok := m[k].(T)\<close> never panic.\<close>

fun stringOk :: "tfvalue option \<Rightarrow> string option" where
  "stringOk (Some (VString s)) = Some s"
| "stringOk _ = None"

fun intOk :: "tfvalue option \<Rightarrow> 64 word option" where
  "intOk (Some (VInt n)) = Some n"
| "intOk _ = None"

fun setOk :: "tfvalue option \<Rightarrow> string fset option" where
  "setOk (Some (VSet s)) = Some s"
| "setOk _ = None"

text \<open>\<open>len(l) == 0 || l[0] == nil\<close>, the guard that opens every expand function.\<close>

fun emptyOrNil :: "tfvalue slice \<Rightarrow> bool" where
  "emptyOrNil NilSlice = True"
| "emptyOrNil (Slice []) = True"
| "emptyOrNil (Slice (x # xs)) = (x = VNil)"

text \<open>\<open>l[0]\<close>, which the source reads only behind the guard.\<close>

fun first :: "tfvalue slice \<Rightarrow> tfvalue result" where
  "first (Slice (x # xs)) = Inr x"
| "first _ = Inl Panic"

subsection \<open>Pointer helpers of the AWS SDK\<close>

text \<open>A \<open>*string\<close> or \<open>*int64\<close> is an option; \<open>aws.StringValue\<close> and \<open>aws.Int64Value\<close>
  read a nil pointer as the zero value.\<close>

definition aws_String :: "string \<Rightarrow> string option" where
  "aws_String s = Some s"

definition aws_Int64 :: "64 word \<Rightarrow> 64 word option" where
  "aws_Int64 n = Some n"

definition aws_StringValue :: "string option \<Rightarrow> string" where
  "aws_StringValue p = (case p of None \<Rightarrow> [] | Some s \<Rightarrow> s)"

definition aws_Int64Value :: "64 word option \<Rightarrow> 64 word" where
  "aws_Int64Value p = (case p of None \<Rightarrow> 0 | Some n \<Rightarrow> n)"

subsection \<open>SDK structs\<close>

text \<open>\<open>aws.JSONValue\<close> is a \<open>map[string]interface{}\<close>, nil when decoding failed.\<close>

type_synonym JSONValue = "tfmap option"

record HumanLoopActivationConditionsConfig =
  HumanLoopActivationConditions :: JSONValue

record HumanLoopActivationConfig =
  HumanLoopActivationConditionsConfig :: "HumanLoopActivationConditionsConfig option"

record FlowDefinitionOutputConfig =
  KmsKeyId :: "string option"
  S3OutputPath :: "string option"

record HumanLoopRequestSource =
  AwsManagedHumanLoopRequestSource :: "string option"

text \<open>\<open>TaskKeywords\<close> is a \<open>[]*string\<close>. The source never sets
  \<open>PublicWorkforceTaskPrice\<close>, which is left out.\<close>

record HumanLoopConfig =
  HumanTaskUiArn :: "string option"
  TaskAvailabilityLifetimeInSeconds :: "64 word option"
  TaskCount :: "64 word option"
  TaskDescription :: "string option"
  TaskKeywords :: "string option slice"
  TaskTimeLimitInSeconds :: "64 word option"
  TaskTitle :: "string option"
  WorkteamArn :: "string option"

text \<open>\<open>protocol.EscapeMode\<close>; the source only passes \<open>protocol.NoEscape\<close>.\<close>

datatype EscapeMode = NoEscape | Base64Escape | QuotedEscape

text \<open>A Go \<open>error\<close>: an AWS API error with its code and message, the provider's
  not-found error, any other error, and \<open>fmt.Errorf\<close> with \<open>%w\<close>, which wraps an error
  behind a message.\<close>

datatype error =
    AwsError string string
  | NotFoundError string
  | OtherError string
  | Errorf string error

section \<open>Expand and flatten\<close>

text \<open>
  The bind of the panic monad: a panic in the first computation is the result.
\<close>

fun bind :: "'a result \<Rightarrow> ('a \<Rightarrow> 'b result) \<Rightarrow> 'b result" where
  "bind (Inl p) f = Inl p"
| "bind (Inr x) f = f x"

subsection \<open>human_loop_activation_conditions_config\<close>

text \<open>\<open>protocol.DecodeJSONValue\<close> and \<open>protocol.EncodeJSONValue\<close> belong to the AWS SDK
  and are parameters: each returns a value together with an error, nil on success.\<close>

type_synonym decoder = "string \<Rightarrow> EscapeMode \<Rightarrow> JSONValue \<times> error option"
type_synonym encoder = "JSONValue \<Rightarrow> EscapeMode \<Rightarrow> string \<times> error option"

definition expandSagemakerFlowDefinitionHumanLoopActivationConditionsConfig ::
  "decoder \<Rightarrow> tfvalue slice \<Rightarrow> HumanLoopActivationConditionsConfig option result" where
  "expandSagemakerFlowDefinitionHumanLoopActivationConditionsConfig DecodeJSONValue l =
     (if emptyOrNil l then Inr None
      else bind (first l) (\<lambda>x. bind (assertMap x) (\<lambda>m.
           bind (assertString (m ''human_loop_activation_conditions'')) (\<lambda>s.
             let (v, _) = DecodeJSONValue s NoEscape
             in Inr (Some \<lparr>HumanLoopActivationConditions = v\<rparr>)))))"

definition flattenSagemakerFlowDefinitionHumanLoopActivationConditionsConfig ::
  "encoder \<Rightarrow> HumanLoopActivationConditionsConfig option \<Rightarrow> tfmap slice" where
  "flattenSagemakerFlowDefinitionHumanLoopActivationConditionsConfig EncodeJSONValue config =
     (case config of
        None \<Rightarrow> Slice []
      | Some c \<Rightarrow>
          let (v, _) = EncodeJSONValue (HumanLoopActivationConditions c) NoEscape
          in Slice [[''human_loop_activation_conditions'' \<mapsto> VString v]])"

subsection \<open>human_loop_activation_config\<close>

definition expandSagemakerFlowDefinitionHumanLoopActivationConfig ::
  "decoder \<Rightarrow> tfvalue slice \<Rightarrow> HumanLoopActivationConfig option result" where
  "expandSagemakerFlowDefinitionHumanLoopActivationConfig DecodeJSONValue l =
     (if emptyOrNil l then Inr None
      else bind (first l) (\<lambda>x. bind (assertMap x) (\<lambda>m.
           bind (assertList (m ''human_loop_activation_conditions_config'')) (\<lambda>l'.
           bind (expandSagemakerFlowDefinitionHumanLoopActivationConditionsConfig DecodeJSONValue l')
             (\<lambda>c. Inr (Some \<lparr>HumanLoopActivationConditionsConfig = c\<rparr>))))))"

definition flattenSagemakerFlowDefinitionHumanLoopActivationConfig ::
  "encoder \<Rightarrow> HumanLoopActivationConfig option \<Rightarrow> tfmap slice" where
  "flattenSagemakerFlowDefinitionHumanLoopActivationConfig EncodeJSONValue config =
     (case config of
        None \<Rightarrow> Slice []
      | Some c \<Rightarrow>
          Slice [[''human_loop_activation_conditions_config'' \<mapsto>
                    VMapList (flattenSagemakerFlowDefinitionHumanLoopActivationConditionsConfig
                                EncodeJSONValue (HumanLoopActivationConditionsConfig c))]])"

subsection \<open>output_config\<close>

definition expandSagemakerFlowDefinitionOutputConfig ::
  "tfvalue slice \<Rightarrow> FlowDefinitionOutputConfig option result" where
  "expandSagemakerFlowDefinitionOutputConfig l =
     (if emptyOrNil l then Inr None
      else bind (first l) (\<lambda>x. bind (assertMap x) (\<lambda>m.
           bind (assertString (m ''s3_output_path'')) (\<lambda>s.
             let config = \<lparr>KmsKeyId = None, S3OutputPath = aws_String s\<rparr>;
                 config = (case stringOk (m ''kms_key_id'') of
                             Some v \<Rightarrow> if v \<noteq> [] then config\<lparr>KmsKeyId := aws_String v\<rparr>
                                       else config
                           | None \<Rightarrow> config)
             in Inr (Some config)))))"

definition flattenSagemakerFlowDefinitionOutputConfig ::
  "FlowDefinitionOutputConfig option \<Rightarrow> tfmap slice" where
  "flattenSagemakerFlowDefinitionOutputConfig config =
     (case config of
        None \<Rightarrow> Slice []
      | Some c \<Rightarrow>
          Slice [[''kms_key_id'' \<mapsto> VString (aws_StringValue (KmsKeyId c)),
                  ''s3_output_path'' \<mapsto> VString (aws_StringValue (S3OutputPath c))]])"

subsection \<open>human_loop_request_source\<close>

definition expandSagemakerFlowDefinitionHumanLoopRequestSource ::
  "tfvalue slice \<Rightarrow> HumanLoopRequestSource option result" where
  "expandSagemakerFlowDefinitionHumanLoopRequestSource l =
     (if emptyOrNil l then Inr None
      else bind (first l) (\<lambda>x. bind (assertMap x) (\<lambda>m.
           bind (assertString (m ''aws_managed_human_loop_request_source'')) (\<lambda>s.
             Inr (Some \<lparr>AwsManagedHumanLoopRequestSource = aws_String s\<rparr>)))))"

definition flattenSagemakerFlowDefinitionHumanLoopRequestSource ::
  "HumanLoopRequestSource option \<Rightarrow> tfmap slice" where
  "flattenSagemakerFlowDefinitionHumanLoopRequestSource config =
     (case config of
        None \<Rightarrow> Slice []
      | Some c \<Rightarrow>
          Slice [[''aws_managed_human_loop_request_source'' \<mapsto>
                    VString (aws_StringValue (AwsManagedHumanLoopRequestSource c))]])"

subsection \<open>human_loop_config\<close>

text \<open>\<open>expandStringSet\<close> and \<open>flattenStringSet\<close> are helpers of the provider defined in
  another file; they are parameters here.\<close>

type_synonym stringSetExpander = "string fset \<Rightarrow> string option slice"
type_synonym stringSetFlattener = "string option slice \<Rightarrow> string fset"

definition expandSagemakerFlowDefinitionHumanLoopConfig ::
  "stringSetExpander \<Rightarrow> tfvalue slice \<Rightarrow> HumanLoopConfig option result" where
  "expandSagemakerFlowDefinitionHumanLoopConfig expandStringSet l =
     (if emptyOrNil l then Inr None
      else bind (first l) (\<lambda>x. bind (assertMap x) (\<lambda>m.
           bind (assertString (m ''human_task_ui_arn'')) (\<lambda>ui.
           bind (assertInt (m ''task_count'')) (\<lambda>n.
           bind (assertString (m ''task_description'')) (\<lambda>descr.
           bind (assertString (m ''task_title'')) (\<lambda>title.
           bind (assertString (m ''workteam_arn'')) (\<lambda>team.
             let config = \<lparr>HumanTaskUiArn = aws_String ui,
                           TaskAvailabilityLifetimeInSeconds = None,
                           TaskCount = aws_Int64 n,
                           TaskDescription = aws_String descr,
                           TaskKeywords = NilSlice,
                           TaskTimeLimitInSeconds = None,
                           TaskTitle = aws_String title,
                           WorkteamArn = aws_String team\<rparr>;
                 config = (case setOk (m ''task_keywords'') of
                             Some v \<Rightarrow> if fcard v > 0
                                       then config\<lparr>TaskKeywords := expandStringSet v\<rparr>
                                       else config
                           | None \<Rightarrow> config);
                 config = (case intOk (m ''task_availability_lifetime_in_seconds'') of
                             Some v \<Rightarrow> config\<lparr>TaskAvailabilityLifetimeInSeconds := aws_Int64 v\<rparr>
                           | None \<Rightarrow> config);
                 config = (case intOk (m ''task_time_limit_in_seconds'') of
                             Some v \<Rightarrow> config\<lparr>TaskTimeLimitInSeconds := aws_Int64 v\<rparr>
                           | None \<Rightarrow> config)
             in Inr (Some config)))))))))"

definition flattenSagemakerFlowDefinitionHumanLoopConfig ::
  "stringSetFlattener \<Rightarrow> HumanLoopConfig option \<Rightarrow> tfmap slice" where
  "flattenSagemakerFlowDefinitionHumanLoopConfig flattenStringSet config =
     (case config of
        None \<Rightarrow> Slice []
      | Some c \<Rightarrow>
          let m = [''human_task_ui_arn'' \<mapsto> VString (aws_StringValue (HumanTaskUiArn c)),
                   ''task_count'' \<mapsto> VInt64 (aws_Int64Value (TaskCount c)),
                   ''task_description'' \<mapsto> VString (aws_StringValue (TaskDescription c)),
                   ''task_title'' \<mapsto> VString (aws_StringValue (TaskTitle c)),
                   ''workteam_arn'' \<mapsto> VString (aws_StringValue (WorkteamArn c))];
              m = (if TaskKeywords c \<noteq> NilSlice
                   then m(''task_keywords'' \<mapsto> VSet (flattenStringSet (TaskKeywords c)))
                   else m);
              m = (if TaskAvailabilityLifetimeInSeconds c \<noteq> None
                   then m(''task_availability_lifetime_in_seconds'' \<mapsto>
                            VInt64 (aws_Int64Value (TaskAvailabilityLifetimeInSeconds c)))
                   else m);
              m = (if TaskTimeLimitInSeconds c \<noteq> None
                   then m(''task_time_limit_in_seconds'' \<mapsto>
                            VInt64 (aws_Int64Value (TaskTimeLimitInSeconds c)))
                   else m)
          in Slice [m])"

text \<open>A flatten result is a \<open>[]map[string]interface{}\<close>; read as a \<open>[]interface{}\<close>, each
  map is an element of the list.\<close>

fun asInterfaceSlice :: "tfmap slice \<Rightarrow> tfvalue slice" where
  "asInterfaceSlice NilSlice = NilSlice"
| "asInterfaceSlice (Slice ms) = Slice (map VMap ms)"


text \<open>
  The map of a \<open>human_loop_config\<close> block with every scalar attribute set:
  \<open>I\<close> is the dynamic type of its three integers, \<open>VInt\<close> for Go's \<open>int\<close> (what the
  expand function asserts) or \<open>VInt64\<close> (what \<open>aws.Int64Value\<close> returns), and \<open>kw\<close> is
  \<open>task_keywords\<close>, absent when \<open>None\<close>.
\<close>

definition humanLoopConfigMap ::
  "(64 word \<Rightarrow> tfvalue) \<Rightarrow> string \<Rightarrow> string \<Rightarrow> string \<Rightarrow> string
     \<Rightarrow> 64 word \<Rightarrow> 64 word \<Rightarrow> 64 word \<Rightarrow> string fset option \<Rightarrow> tfmap" where
  "humanLoopConfigMap I ui descr title team n life limit kw =
     (let m = [''human_task_ui_arn'' \<mapsto> VString ui,
               ''task_count'' \<mapsto> I n,
               ''task_description'' \<mapsto> VString descr,
               ''task_title'' \<mapsto> VString title,
               ''workteam_arn'' \<mapsto> VString team,
               ''task_availability_lifetime_in_seconds'' \<mapsto> I life,
               ''task_time_limit_in_seconds'' \<mapsto> I limit]
      in case kw of None \<Rightarrow> m | Some ks \<Rightarrow> m(''task_keywords'' \<mapsto> VSet ks))"

section \<open>The resource operations\<close>

subsection \<open>Resource data\<close>

text \<open>
  \<open>*schema.ResourceData\<close>, with one field for each attribute of the schema at the type
  the schema fixes: \<open>TypeString\<close> is a string, \<open>TypeList\<close> a \<open>[]interface{}\<close> and the
  tag maps a \<open>map[string]interface{}\<close>, so that \<open>d.Get(k).(T)\<close> is the field itself.
  \<open>tags_all_prior\<close> is the old side of \<open>d.GetChange("tags_all")\<close>, and \<open>ResourceId\<close>
  is what \<open>d.Id()\<close> returns.
\<close>

record ResourceData =
  ResourceId :: string
  IsNewResource :: bool
  arn :: string
  flow_definition_name :: string
  human_loop_activation_config :: "tfvalue slice"
  human_loop_config :: "tfvalue slice"
  human_loop_request_source :: "tfvalue slice"
  role_arn :: string
  output_config :: "tfvalue slice"
  tags :: tfmap
  tags_all :: tfmap
  tags_all_prior :: tfmap

text \<open>\<open>d.GetOk\<close> on a list attribute: the value, and whether it differs from the zero
  value of the type, the empty list.\<close>

definition GetOk :: "tfvalue slice \<Rightarrow> tfvalue slice \<times> bool" where
  "GetOk v = (v, v \<noteq> Slice [])"

definition HasChange_tags_all :: "ResourceData \<Rightarrow> bool" where
  "HasChange_tags_all d = (tags_all_prior d \<noteq> tags_all d)"

definition GetChange_tags_all :: "ResourceData \<Rightarrow> tfvalue \<times> tfvalue" where
  "GetChange_tags_all d = (VMap (tags_all_prior d), VMap (tags_all d))"

definition SetId :: "string \<Rightarrow> ResourceData \<Rightarrow> ResourceData" where
  "SetId v d = d\<lparr>ResourceId := v\<rparr>"

subsection \<open>Requests, responses and the calls made\<close>

record Tag =
  Key :: "string option"
  Value :: "string option"

record CreateFlowDefinitionInput =
  FlowDefinitionName :: "string option"
  HumanLoopActivationConfig :: "HumanLoopActivationConfig option"
  HumanLoopConfig :: "HumanLoopConfig option"
  HumanLoopRequestSource :: "HumanLoopRequestSource option"
  OutputConfig :: "FlowDefinitionOutputConfig option"
  RoleArn :: "string option"
  Tags :: "Tag option slice"

text \<open>The fields of \<open>sagemaker.DescribeFlowDefinitionOutput\<close> that the read operation
  uses.\<close>

record DescribeFlowDefinitionOutput =
  DescribedArn :: "string option"
  DescribedName :: "string option"
  DescribedHumanLoopActivationConfig :: "HumanLoopActivationConfig option"
  DescribedHumanLoopConfig :: "HumanLoopConfig option"
  DescribedHumanLoopRequestSource :: "HumanLoopRequestSource option"
  DescribedOutputConfig :: "FlowDefinitionOutputConfig option"
  DescribedRoleArn :: "string option"

type_synonym KeyValueTags = "string \<Rightarrow> string option"

text \<open>Every call that reaches AWS, with its arguments. \<open>DeleteFlowDefinitionInput\<close> has
  the one field \<open>FlowDefinitionName\<close>.\<close>

datatype api_call =
    CallCreateFlowDefinition CreateFlowDefinitionInput
  | CallDeleteFlowDefinition "string option"
  | CallFlowDefinitionByName string
  | CallListTags string
  | CallUpdateTags string tfvalue tfvalue

text \<open>The calls that change the remote side: the lookup by name and the tag listing
  only describe it.\<close>

fun mutating :: "api_call \<Rightarrow> bool" where
  "mutating (CallCreateFlowDefinition _) = True"
| "mutating (CallDeleteFlowDefinition _) = True"
| "mutating (CallUpdateTags _ _ _) = True"
| "mutating (CallFlowDefinitionByName _) = False"
| "mutating (CallListTags _) = False"

text \<open>The world outside the provider: the remote side, of any type \<open>'r\<close>, and the calls
  made so far, oldest first.\<close>

record 'r world =
  remote :: 'r
  calls :: "api_call list"

text \<open>
  Everything the operations use that is defined outside the file: the SageMaker
  connection \<open>meta.(*AWSClient).sagemakerconn\<close>, the provider's tag and lookup helpers
  (\<open>keyvaluetags\<close>, \<open>finder\<close>, \<open>tfresource\<close>, \<open>expandStringSet\<close>, \<open>flattenStringSet\<close>),
  the JSON functions of the AWS SDK and \<open>d.Set\<close> of the plugin SDK. Each API function
  takes the remote side and returns its response with the remote side after the call.
\<close>

record 'r client =
  CreateFlowDefinition :: "CreateFlowDefinitionInput \<Rightarrow> 'r \<Rightarrow> error option \<times> 'r"
  DeleteFlowDefinition :: "string option \<Rightarrow> 'r \<Rightarrow> error option \<times> 'r"
  FlowDefinitionByName ::
    "string \<Rightarrow> 'r \<Rightarrow> (DescribeFlowDefinitionOutput option \<times> error option) \<times> 'r"
  SagemakerListTags :: "string \<Rightarrow> 'r \<Rightarrow> (KeyValueTags \<times> error option) \<times> 'r"
  SagemakerUpdateTags :: "string \<Rightarrow> tfvalue \<Rightarrow> tfvalue \<Rightarrow> 'r \<Rightarrow> error option \<times> 'r"
  NotFound :: "error option \<Rightarrow> bool"
  keyvaluetags_New :: "tfmap \<Rightarrow> KeyValueTags"
  MergeTags :: "KeyValueTags \<Rightarrow> KeyValueTags"
  IgnoreAws :: "KeyValueTags \<Rightarrow> KeyValueTags"
  IgnoreConfig :: "KeyValueTags \<Rightarrow> KeyValueTags"
  RemoveDefaultConfig :: "KeyValueTags \<Rightarrow> KeyValueTags"
  SagemakerTags :: "KeyValueTags \<Rightarrow> Tag option slice"
  TagsMap :: "KeyValueTags \<Rightarrow> string \<Rightarrow> string option"
  expandStringSet :: stringSetExpander
  flattenStringSet :: stringSetFlattener
  DecodeJSONValue :: decoder
  EncodeJSONValue :: encoder
  d_Set :: "string \<Rightarrow> tfvalue \<Rightarrow> ResourceData \<Rightarrow> error option \<times> ResourceData"

text \<open>A call is appended to the calls made, whatever it returns.\<close>

definition conn_CreateFlowDefinition ::
  "'r client \<Rightarrow> CreateFlowDefinitionInput \<Rightarrow> 'r world \<Rightarrow> error option \<times> 'r world" where
  "conn_CreateFlowDefinition c input w =
     (let (err, r) = CreateFlowDefinition c input (remote w)
      in (err, \<lparr>remote = r, calls = calls w @ [CallCreateFlowDefinition input]\<rparr>))"

definition conn_DeleteFlowDefinition ::
  "'r client \<Rightarrow> string option \<Rightarrow> 'r world \<Rightarrow> error option \<times> 'r world" where
  "conn_DeleteFlowDefinition c name w =
     (let (err, r) = DeleteFlowDefinition c name (remote w)
      in (err, \<lparr>remote = r, calls = calls w @ [CallDeleteFlowDefinition name]\<rparr>))"

definition finder_FlowDefinitionByName ::
  "'r client \<Rightarrow> string \<Rightarrow> 'r world
     \<Rightarrow> (DescribeFlowDefinitionOutput option \<times> error option) \<times> 'r world" where
  "finder_FlowDefinitionByName c name w =
     (let (res, r) = FlowDefinitionByName c name (remote w)
      in (res, \<lparr>remote = r, calls = calls w @ [CallFlowDefinitionByName name]\<rparr>))"

definition keyvaluetags_SagemakerListTags ::
  "'r client \<Rightarrow> string \<Rightarrow> 'r world \<Rightarrow> (KeyValueTags \<times> error option) \<times> 'r world" where
  "keyvaluetags_SagemakerListTags c a w =
     (let (res, r) = SagemakerListTags c a (remote w)
      in (res, \<lparr>remote = r, calls = calls w @ [CallListTags a]\<rparr>))"

definition keyvaluetags_SagemakerUpdateTags ::
  "'r client \<Rightarrow> string \<Rightarrow> tfvalue \<Rightarrow> tfvalue \<Rightarrow> 'r world \<Rightarrow> error option \<times> 'r world" where
  "keyvaluetags_SagemakerUpdateTags c a old new w =
     (let (err, r) = SagemakerUpdateTags c a old new (remote w)
      in (err, \<lparr>remote = r, calls = calls w @ [CallUpdateTags a old new]\<rparr>))"

text \<open>The calls made between two worlds of one run.\<close>

definition callsSince :: "'r world \<Rightarrow> 'r world \<Rightarrow> api_call list" where
  "callsSince w w' = drop (length (calls w)) (calls w')"

text \<open>What an operation leaves behind: the error it returns (nil is \<open>None\<close>), the
  resource data and the world. A panic leaves nothing.\<close>

type_synonym 'r outcome = "(error option \<times> ResourceData \<times> 'r world) result"


subsection \<open>Errors of the AWS SDK\<close>

text \<open>
  \<open>tfawserr.ErrMessageContains\<close> of \<open>aws-sdk-go-base\<close>: \<open>errors.As\<close> looks through
  \<open>%w\<close> wrappers for an AWS error, whose code must be the given one and whose message
  must contain the given text (\<open>strings.Contains\<close>). A nil error holds no AWS error.
\<close>

fun hasPrefix :: "string \<Rightarrow> string \<Rightarrow> bool" where
  "hasPrefix s [] = True"
| "hasPrefix [] (p # ps) = False"
| "hasPrefix (c # cs) (p # ps) = (c = p \<and> hasPrefix cs ps)"

fun strings_Contains :: "string \<Rightarrow> string \<Rightarrow> bool" where
  "strings_Contains [] sub = (sub = [])"
| "strings_Contains (c # cs) sub = (hasPrefix (c # cs) sub \<or> strings_Contains cs sub)"

fun asAwsError :: "error \<Rightarrow> (string \<times> string) option" where
  "asAwsError (AwsError code msg) = Some (code, msg)"
| "asAwsError (Errorf _ e) = asAwsError e"
| "asAwsError _ = None"

definition ErrMessageContains :: "error option \<Rightarrow> string \<Rightarrow> string \<Rightarrow> bool" where
  "ErrMessageContains err code message =
     (case err of
        None \<Rightarrow> False
      | Some e \<Rightarrow> (case asAwsError e of
                    None \<Rightarrow> False
                  | Some (c, m) \<Rightarrow> c = code \<and> strings_Contains m message))"

subsection \<open>Read\<close>

text \<open>
  The operations follow the source statement by statement; \<open>log.Printf\<close> has no effect
  on the result and is left out. \<open>returnIfErr err msg d w rest\<close> is the statement
  \<open>if err != nil { return fmt.Errorf(msg + "%w", err) }\<close> followed by \<open>rest\<close>.
  Reading a field of a nil \<open>flowDefinition\<close> panics.
\<close>

definition returnIfErr ::
  "error option \<Rightarrow> string \<Rightarrow> ResourceData \<Rightarrow> 'r world \<Rightarrow> 'r outcome \<Rightarrow> 'r outcome" where
  "returnIfErr err msg d w rest =
     (case err of Some e \<Rightarrow> Inr (Some (Errorf msg e), d, w) | None \<Rightarrow> rest)"

definition readTags :: "'r client \<Rightarrow> string \<Rightarrow> ResourceData \<Rightarrow> 'r world \<Rightarrow> 'r outcome" where
  "readTags c a d w =
     (let ((tgs, err), w) = keyvaluetags_SagemakerListTags c a w
      in returnIfErr err
           (''error listing tags for SageMaker Flow Definition ('' @ ResourceId d @ ''): '') d w
        (let tgs = IgnoreConfig c (IgnoreAws c tgs);
             (err, d) = d_Set c ''tags'' (VStringMap (TagsMap c (RemoveDefaultConfig c tgs))) d
         in returnIfErr err ''error setting tags: '' d w
        (let (err, d) = d_Set c ''tags_all'' (VStringMap (TagsMap c tgs)) d
         in returnIfErr err ''error setting tags_all: '' d w
        (Inr (None, d, w)))))"

definition readBlocks ::
  "'r client \<Rightarrow> DescribeFlowDefinitionOutput \<Rightarrow> ResourceData \<Rightarrow> 'r world \<Rightarrow> 'r outcome" where
  "readBlocks c flowDefinition d w =
     (let a = aws_StringValue (DescribedArn flowDefinition);
          (_, d) = d_Set c ''arn'' (VString a) d;
          (_, d) = d_Set c ''role_arn'' (VStringPtr (DescribedRoleArn flowDefinition)) d;
          (_, d) = d_Set c ''flow_definition_name'' (VStringPtr (DescribedName flowDefinition)) d;
          (err, d) = d_Set c ''human_loop_activation_config''
                       (VMapList (flattenSagemakerFlowDefinitionHumanLoopActivationConfig
                                    (EncodeJSONValue c)
                                    (DescribedHumanLoopActivationConfig flowDefinition))) d
      in returnIfErr err ''error setting human_loop_activation_config: '' d w
        (let (err, d) = d_Set c ''human_loop_config''
                          (VMapList (flattenSagemakerFlowDefinitionHumanLoopConfig
                                       (flattenStringSet c)
                                       (DescribedHumanLoopConfig flowDefinition))) d
         in returnIfErr err ''error setting human_loop_config: '' d w
        (let (err, d) = d_Set c ''human_loop_request_source''
                          (VMapList (flattenSagemakerFlowDefinitionHumanLoopRequestSource
                                       (DescribedHumanLoopRequestSource flowDefinition))) d
         in returnIfErr err ''error setting human_loop_request_source: '' d w
        (let (err, d) = d_Set c ''output_config''
                          (VMapList (flattenSagemakerFlowDefinitionOutputConfig
                                       (DescribedOutputConfig flowDefinition))) d
         in returnIfErr err ''error setting output_config: '' d w
        (readTags c a d w)))))"

definition resourceAwsSagemakerFlowDefinitionRead ::
  "'r client \<Rightarrow> ResourceData \<Rightarrow> 'r world \<Rightarrow> 'r outcome" where
  "resourceAwsSagemakerFlowDefinitionRead c d w =
     (let ((flowDefinition, err), w) = finder_FlowDefinitionByName c (ResourceId d) w
      in if \<not> IsNewResource d \<and> NotFound c err then Inr (None, SetId [] d, w)
         else returnIfErr err
                (''error reading SageMaker Flow Definition ('' @ ResourceId d @ ''): '') d w
                (case flowDefinition of
                   None \<Rightarrow> Inl Panic
                 | Some fd \<Rightarrow> readBlocks c fd d w))"

subsection \<open>Create\<close>

definition resourceAwsSagemakerFlowDefinitionCreate ::
  "'r client \<Rightarrow> ResourceData \<Rightarrow> 'r world \<Rightarrow> 'r outcome" where
  "resourceAwsSagemakerFlowDefinitionCreate c d w =
     (let tgs = MergeTags c (keyvaluetags_New c (tags d));
          name = flow_definition_name d
      in bind (expandSagemakerFlowDefinitionHumanLoopConfig (expandStringSet c)
                 (human_loop_config d)) (\<lambda>hlc.
         bind (expandSagemakerFlowDefinitionOutputConfig (output_config d)) (\<lambda>oc.
         let input = \<lparr>FlowDefinitionName = aws_String name,
                      HumanLoopActivationConfig = None,
                      HumanLoopConfig = hlc,
                      HumanLoopRequestSource = None,
                      OutputConfig = oc,
                      RoleArn = aws_String (role_arn d),
                      Tags = NilSlice\<rparr>
         in
         bind (let (v, ok) = GetOk (human_loop_activation_config d)
               in if ok \<and> len v > 0
                  then bind (expandSagemakerFlowDefinitionHumanLoopActivationConfig
                               (DecodeJSONValue c) v)
                         (\<lambda>x. Inr (input\<lparr>HumanLoopActivationConfig := x\<rparr>))
                  else Inr input) (\<lambda>input.
         bind (let (v, ok) = GetOk (human_loop_request_source d)
               in if ok \<and> len v > 0
                  then bind (expandSagemakerFlowDefinitionHumanLoopRequestSource v)
                         (\<lambda>x. Inr (input\<lparr>HumanLoopRequestSource := x\<rparr>))
                  else Inr input) (\<lambda>input.
         let input = (if tgs \<noteq> Map.empty
                      then input\<lparr>Tags := SagemakerTags c (IgnoreAws c tgs)\<rparr>
                      else input);
             (err, w) = conn_CreateFlowDefinition c input w
         in returnIfErr err
              (''error creating SageMaker Flow Definition ('' @ name @ ''): '') d w
              (resourceAwsSagemakerFlowDefinitionRead c (SetId name d) w))))))"

subsection \<open>Update\<close>

definition resourceAwsSagemakerFlowDefinitionUpdate ::
  "'r client \<Rightarrow> ResourceData \<Rightarrow> 'r world \<Rightarrow> 'r outcome" where
  "resourceAwsSagemakerFlowDefinitionUpdate c d w =
     (if HasChange_tags_all d
      then let (old, new) = GetChange_tags_all d;
               (err, w) = keyvaluetags_SagemakerUpdateTags c (arn d) old new w
           in returnIfErr err
                (''error updating SageMaker Flow Definition ('' @ ResourceId d @ '') tags: '') d w
                (resourceAwsSagemakerFlowDefinitionRead c d w)
      else resourceAwsSagemakerFlowDefinitionRead c d w)"

subsection \<open>Delete\<close>

definition resourceAwsSagemakerFlowDefinitionDelete ::
  "'r client \<Rightarrow> ResourceData \<Rightarrow> 'r world \<Rightarrow> error option \<times> ResourceData \<times> 'r world" where
  "resourceAwsSagemakerFlowDefinitionDelete c d w =
     (let (err, w) = conn_DeleteFlowDefinition c (aws_String (ResourceId d)) w
      in if ErrMessageContains err ''ValidationException'' ''The work team''
         then (None, d, w)
         else (case err of
                 Some e \<Rightarrow>
                   (Some (Errorf (''error deleting SageMaker Flow Definition ('' @ ResourceId d @ ''): '') e),
                    d, w)
               | None \<Rightarrow> (None, d, w)))"


section \<open>Schema validation\<close>

subsection \<open>Strings as the regular expression engine reads them\<close>

text \<open>
  A Go string is a sequence of bytes and \<open>len\<close> counts bytes. The \<open>regexp\<close> package
  reads it one UTF-8 encoded character at a time; a byte that starts no valid encoding is
  read alone (as U+FFFD). A character is kept as the bytes it was read from: one byte
  below \<open>0x80\<close> for ASCII, otherwise one to four bytes of which the first is not ASCII.
  \<open>runeWidth\<close> is the width \<open>utf8.DecodeRuneInString\<close> reports at the start of a string.
\<close>

type_synonym rune = string

definition byte :: "char \<Rightarrow> nat" where
  "byte c = of_char c"

definition continuation :: "char \<Rightarrow> bool" where
  "continuation c = (0x80 \<le> byte c \<and> byte c \<le> 0xBF)"

fun runeWidth :: "string \<Rightarrow> nat" where
  "runeWidth [] = 0"
| "runeWidth (b # bs) =
     (let x = byte b
      in if x < 0x80 then 1
         else if x < 0xC2 \<or> 0xF4 < x then 1
         else
           let sz = (if x < 0xE0 then 2 else if x < 0xF0 then 3 else 4) :: nat;
               lo = (if x = 0xE0 then 0xA0 else if x = 0xF0 then 0x90 else 0x80) :: nat;
               hi = (if x = 0xED then 0x9F else if x = 0xF4 then 0x8F else 0xBF) :: nat
           in if length (b # bs) < sz then 1
              else if byte (bs ! 0) < lo \<or> hi < byte (bs ! 0) then 1
              else if sz \<le> 2 then 2
              else if \<not> continuation (bs ! 1) then 1
              else if sz \<le> 3 then 3
              else if \<not> continuation (bs ! 2) then 1
              else 4)"

fun decodeRunes :: "string \<Rightarrow> rune list" where
  "decodeRunes [] = []"
| "decodeRunes (b # bs) =
     (b # take (runeWidth (b # bs) - 1) bs) # decodeRunes (drop (runeWidth (b # bs) - 1) bs)"

subsection \<open>Regular expressions\<close>

text \<open>
  The syntax the two patterns of the schema use: a literal character, a class of
  ranges such as \<open>[a-z0-9]\<close>, a negated one-character class such as \<open>[^/]\<close> (which
  matches a newline too) and the dot, which matches any character but a newline.
  \<open>x?\<close> is \<open>Alt x Eps\<close>; groups only capture and do not change what matches.
\<close>

datatype atom =
    Char char
  | Class "(char \<times> char) list"
  | NotChar char
  | AnyNotNL

datatype regex =
    Zero
  | Eps
  | Atom atom
  | Seq regex regex
  | Alt regex regex
  | Star regex

definition inRange :: "char \<Rightarrow> char \<times> char \<Rightarrow> bool" where
  "inRange b r = (byte (fst r) \<le> byte b \<and> byte b \<le> byte (snd r))"

fun atomMatches :: "atom \<Rightarrow> rune \<Rightarrow> bool" where
  "atomMatches (Char c) r = (r = [c])"
| "atomMatches (Class rs) r = (case r of [b] \<Rightarrow> byte b < 0x80 \<and> list_ex (inRange b) rs | _ \<Rightarrow> False)"
| "atomMatches (NotChar c) r = (r \<noteq> [c])"
| "atomMatches AnyNotNL r = (r \<noteq> [CHR 0x0A])"

text \<open>Matching by derivatives: \<open>deriv a r\<close> matches what \<open>r\<close> matches after an \<open>a\<close>.\<close>

fun nullable :: "regex \<Rightarrow> bool" where
  "nullable Zero = False"
| "nullable Eps = True"
| "nullable (Atom t) = False"
| "nullable (Seq r s) = (nullable r \<and> nullable s)"
| "nullable (Alt r s) = (nullable r \<or> nullable s)"
| "nullable (Star r) = True"

fun deriv :: "rune \<Rightarrow> regex \<Rightarrow> regex" where
  "deriv a Zero = Zero"
| "deriv a Eps = Zero"
| "deriv a (Atom t) = (if atomMatches t a then Eps else Zero)"
| "deriv a (Seq r s) =
     (if nullable r then Alt (Seq (deriv a r) s) (deriv a s) else Seq (deriv a r) s)"
| "deriv a (Alt r s) = Alt (deriv a r) (deriv a s)"
| "deriv a (Star r) = Seq (deriv a r) (Star r)"

fun matches :: "regex \<Rightarrow> rune list \<Rightarrow> bool" where
  "matches r [] = nullable r"
| "matches r (a # as) = matches (deriv a r) as"

text \<open>
  \<open>MatchString\<close> for a pattern of the form \<open>^r$\<close>: without the \<open>m\<close> flag, \<open>^\<close> and \<open>$\<close>
  hold only at the two ends of the text, so the whole string has to match \<open>r\<close>.
\<close>

definition MatchString :: "regex \<Rightarrow> string \<Rightarrow> bool" where
  "MatchString r s = matches r (decodeRunes s)"

fun literal :: "string \<Rightarrow> regex" where
  "literal [] = Eps"
| "literal (c # cs) = Seq (Atom (Char c)) (literal cs)"

text \<open>The words a regular expression denotes, which the matcher decides.\<close>

definition conc :: "rune list set \<Rightarrow> rune list set \<Rightarrow> rune list set" where
  "conc A B = {xs @ ys | xs ys. xs \<in> A \<and> ys \<in> B}"

inductive_set star :: "rune list set \<Rightarrow> rune list set" for A :: "rune list set" where
  star_empty: "[] \<in> star A"
| star_step: "xs \<in> A \<Longrightarrow> ys \<in> star A \<Longrightarrow> xs @ ys \<in> star A"

fun lang :: "regex \<Rightarrow> rune list set" where
  "lang Zero = {}"
| "lang Eps = {[]}"
| "lang (Atom t) = {[a] | a. atomMatches t a}"
| "lang (Seq r s) = conc (lang r) (lang s)"
| "lang (Alt r s) = lang r \<union> lang s"
| "lang (Star r) = star (lang r)"

subsection \<open>Validators\<close>

text \<open>
  \<open>StringLenBetween\<close>, \<open>StringMatch\<close> and \<open>All\<close> of the plugin SDK's \<open>validation\<close>
  package. A validator takes the value and its attribute name and returns warnings and
  errors; \<open>All\<close> runs every validator and collects both.
\<close>

datatype validation_error =
    ExpectedString string
  | LengthOutOfRange string int int string
  | InvalidValue string string
  | NoRegexMatch string string

type_synonym SchemaValidateFunc = "tfvalue \<Rightarrow> string \<Rightarrow> string list \<times> validation_error list"

definition validation_StringLenBetween :: "int \<Rightarrow> int \<Rightarrow> SchemaValidateFunc" where
  "validation_StringLenBetween lo hi i k =
     (case i of
        VString v \<Rightarrow>
          if int (length v) < lo \<or> int (length v) > hi
          then ([], [LengthOutOfRange k lo hi v])
          else ([], [])
      | _ \<Rightarrow> ([], [ExpectedString k]))"

definition validation_StringMatch :: "regex \<Rightarrow> string \<Rightarrow> SchemaValidateFunc" where
  "validation_StringMatch r message i k =
     (case i of
        VString v \<Rightarrow>
          if \<not> MatchString r v
          then (if message \<noteq> [] then ([], [InvalidValue k message])
                else ([], [NoRegexMatch k v]))
          else ([], [])
      | _ \<Rightarrow> ([], [ExpectedString k]))"

fun validation_All :: "SchemaValidateFunc list \<Rightarrow> SchemaValidateFunc" where
  "validation_All [] i k = ([], [])"
| "validation_All (v # vs) i k =
     (let (validatorWarnings, validatorErrors) = v i k;
          (allWarnings, allErrors) = validation_All vs i k
      in (validatorWarnings @ allWarnings, validatorErrors @ allErrors))"

text \<open>The schema accepts a value for an attribute when its validator reports no error.\<close>

definition accepted :: "SchemaValidateFunc \<Rightarrow> string \<Rightarrow> tfvalue \<Rightarrow> bool" where
  "accepted f k i = (snd (f i k) = [])"

text \<open>\<open>^[a-z0-9](-*[a-z0-9])*$\<close>\<close>

definition flowDefinitionNameRegex :: regex where
  "flowDefinitionNameRegex =
     Seq (Atom (Class [(CHR ''a'', CHR ''z''), (CHR ''0'', CHR ''9'')]))
         (Star (Seq (Star (Atom (Char CHR ''-'')))
                    (Atom (Class [(CHR ''a'', CHR ''z''), (CHR ''0'', CHR ''9'')]))))"

definition flow_definition_name_ValidateFunc :: SchemaValidateFunc where
  "flow_definition_name_ValidateFunc =
     validation_All
       [validation_StringLenBetween 1 63,
        validation_StringMatch flowDefinitionNameRegex
          ''Valid characters are a-z, 0-9, and - (hyphen).'']"

text \<open>\<open>^(https|s3)://([^/])/?(.*)$\<close>\<close>

definition s3OutputPathRegex :: regex where
  "s3OutputPathRegex =
     Seq (Alt (literal ''https'') (literal ''s3''))
    (Seq (literal ''://'')
    (Seq (Atom (NotChar CHR ''/''))
    (Seq (Alt (Atom (Char CHR ''/'')) Eps)
         (Star (Atom AnyNotNL)))))"

definition s3_output_path_ValidateFunc :: SchemaValidateFunc where
  "s3_output_path_ValidateFunc =
     validation_All
       [validation_StringMatch s3OutputPathRegex [],
        validation_StringLenBetween 1 512]"


text \<open>The lowercase letters and digits, the characters of \<open>[a-z0-9]\<close>.\<close>

definition lowerAlnum :: "char set" where
  "lowerAlnum = set ''abcdefghijklmnopqrstuvwxyz0123456789''"

section \<open>A client and a resource for concrete runs\<close>

text \<open>
  A client whose remote side is a pair of counters: the first counts the flow definitions
  created and deleted, the second the tag updates. Every mutating call answers \<open>apiErr\<close>
  and the lookup answers \<open>lookup\<close>; decoding and encoding JSON always fail; a string set
  is expanded to its elements in order and a list is flattened to the set of its non-nil
  elements. \<open>isNotFoundError\<close> looks through wrappers as \<open>errors.As\<close> does.
\<close>

fun isNotFoundError :: "error \<Rightarrow> bool" where
  "isNotFoundError (NotFoundError _) = True"
| "isNotFoundError (Errorf _ e) = isNotFoundError e"
| "isNotFoundError _ = False"

fun stringTags :: "tfmap \<Rightarrow> KeyValueTags" where
  "stringTags m k = (case m k of Some (VString v) \<Rightarrow> Some v | _ \<Rightarrow> None)"

definition exampleClient ::
  "error option \<Rightarrow> DescribeFlowDefinitionOutput option \<times> error option \<Rightarrow> (nat \<times> nat) client" where
  "exampleClient apiErr lookup =
     \<lparr>CreateFlowDefinition = (\<lambda>input r. (apiErr, (Suc (fst r), snd r))),
      DeleteFlowDefinition = (\<lambda>name r. (apiErr, (Suc (fst r), snd r))),
      FlowDefinitionByName = (\<lambda>name r. (lookup, r)),
      SagemakerListTags = (\<lambda>a r. ((Map.empty, None), r)),
      SagemakerUpdateTags = (\<lambda>a old new r. (apiErr, (fst r, Suc (snd r)))),
      NotFound = (\<lambda>err. case err of None \<Rightarrow> False | Some e \<Rightarrow> isNotFoundError e),
      keyvaluetags_New = stringTags,
      MergeTags = (\<lambda>t. t),
      IgnoreAws = (\<lambda>t. t),
      IgnoreConfig = (\<lambda>t. t),
      RemoveDefaultConfig = (\<lambda>t. t),
      SagemakerTags = (\<lambda>t. Slice []),
      TagsMap = (\<lambda>t. t),
      expandStringSet = (\<lambda>ks. Slice (map Some (sorted_list_of_fset ks))),
      flattenStringSet = (\<lambda>l. fset_of_list (List.map_filter (\<lambda>p. p) (elems l))),
      DecodeJSONValue = (\<lambda>v mode. (None, Some (OtherError ''invalid character''))),
      EncodeJSONValue = (\<lambda>v mode. ([], Some (OtherError ''unsupported value''))),
      d_Set = (\<lambda>k v d. (None, d))\<rparr>"

definition exampleResourceData :: ResourceData where
  "exampleResourceData =
     \<lparr>ResourceId = ''flow-1'',
      IsNewResource = False,
      arn = ''arn:flow-1'',
      flow_definition_name = ''flow-1'',
      human_loop_activation_config = Slice [],
      human_loop_config =
        Slice [VMap (humanLoopConfigMap VInt ''arn:ui'' ''label'' ''title'' ''arn:team'' 1 2 3 None)],
      human_loop_request_source = Slice [],
      role_arn = ''arn:role'',
      output_config =
        Slice [VMap [''kms_key_id'' \<mapsto> VString [], ''s3_output_path'' \<mapsto> VString ''s3://b/out'']],
      tags = Map.empty,
      tags_all = [''team'' \<mapsto> VString ''ml''],
      tags_all_prior = Map.empty\<rparr>"

definition exampleFlowDefinition :: DescribeFlowDefinitionOutput where
  "exampleFlowDefinition =
     \<lparr>DescribedArn = Some ''arn:flow-1'',
      DescribedName = Some ''flow-1'',
      DescribedHumanLoopActivationConfig = None,
      DescribedHumanLoopConfig = None,
      DescribedHumanLoopRequestSource = None,
      DescribedOutputConfig = None,
      DescribedRoleArn = Some ''arn:role''\<rparr>"

definition exampleWorld :: "(nat \<times> nat) world" where
  "exampleWorld = \<lparr>remote = (0, 0), calls = []\<rparr>"

text \<open>The request Create builds from \<open>exampleResourceData\<close>.\<close>

definition exampleCreateInput :: CreateFlowDefinitionInput where
  "exampleCreateInput =
     \<lparr>FlowDefinitionName = Some ''flow-1'',
      HumanLoopActivationConfig = None,
      HumanLoopConfig =
        Some \<lparr>HumanTaskUiArn = Some ''arn:ui'',
              TaskAvailabilityLifetimeInSeconds = Some 2,
              TaskCount = Some 1,
              TaskDescription = Some ''label'',
              TaskKeywords = NilSlice,
              TaskTimeLimitInSeconds = Some 3,
              TaskTitle = Some ''title'',
              WorkteamArn = Some ''arn:team''\<rparr>,
      HumanLoopRequestSource = None,
      OutputConfig = Some \<lparr>KmsKeyId = None, S3OutputPath = Some ''s3://b/out''\<rparr>,
      RoleArn = Some ''arn:role'',
      Tags = NilSlice\<rparr>"

section \<open>Properties of expand and flatten\<close>

lemma bind_eq_Inr: "(bind x f = Inr y) = (\<exists>a. x = Inr a \<and> f a = Inr y)"
  by (cases x) auto

lemma emptyOrNil_iff: "emptyOrNil l = (len l = 0 \<or> first l = Inr VNil)"
  by (induction l rule: emptyOrNil.induct) auto

lemma fcard_pos: "(0 < fcard ks) = (ks \<noteq> {||})"
  by (cases "ks = {||}") auto

lemma map_filter_Some: "List.map_filter (\<lambda>p. p) (map Some xs) = xs"
  by (induction xs) simp_all

lemma expand_activation_conditions_nil:
  "(expandSagemakerFlowDefinitionHumanLoopActivationConditionsConfig dec l = Inr None) =
     (len l = 0 \<or> first l = Inr VNil)"
  by (auto simp: expandSagemakerFlowDefinitionHumanLoopActivationConditionsConfig_def
        bind_eq_Inr emptyOrNil_iff Let_def split: prod.splits)

lemma expand_activation_nil:
  "(expandSagemakerFlowDefinitionHumanLoopActivationConfig dec l = Inr None) =
     (len l = 0 \<or> first l = Inr VNil)"
  by (auto simp: expandSagemakerFlowDefinitionHumanLoopActivationConfig_def
        bind_eq_Inr emptyOrNil_iff)

lemma expand_output_nil:
  "(expandSagemakerFlowDefinitionOutputConfig l = Inr None) = (len l = 0 \<or> first l = Inr VNil)"
  by (auto simp: expandSagemakerFlowDefinitionOutputConfig_def bind_eq_Inr emptyOrNil_iff Let_def)

lemma expand_request_source_nil:
  "(expandSagemakerFlowDefinitionHumanLoopRequestSource l = Inr None) =
     (len l = 0 \<or> first l = Inr VNil)"
  by (auto simp: expandSagemakerFlowDefinitionHumanLoopRequestSource_def bind_eq_Inr emptyOrNil_iff)

lemma expand_human_loop_nil:
  "(expandSagemakerFlowDefinitionHumanLoopConfig es l = Inr None) =
     (len l = 0 \<or> first l = Inr VNil)"
  by (auto simp: expandSagemakerFlowDefinitionHumanLoopConfig_def bind_eq_Inr emptyOrNil_iff Let_def)

lemma flatten_nil:
  "flattenSagemakerFlowDefinitionHumanLoopActivationConfig enc None = Slice []"
  "flattenSagemakerFlowDefinitionHumanLoopActivationConditionsConfig enc None = Slice []"
  "flattenSagemakerFlowDefinitionOutputConfig None = Slice []"
  "flattenSagemakerFlowDefinitionHumanLoopRequestSource None = Slice []"
  "flattenSagemakerFlowDefinitionHumanLoopConfig fs None = Slice []"
  by (simp_all add: flattenSagemakerFlowDefinitionHumanLoopActivationConfig_def
        flattenSagemakerFlowDefinitionHumanLoopActivationConditionsConfig_def
        flattenSagemakerFlowDefinitionOutputConfig_def
        flattenSagemakerFlowDefinitionHumanLoopRequestSource_def
        flattenSagemakerFlowDefinitionHumanLoopConfig_def)

lemma expand_empty:
  "expandSagemakerFlowDefinitionHumanLoopActivationConfig dec (Slice []) = Inr None"
  "expandSagemakerFlowDefinitionHumanLoopActivationConditionsConfig dec (Slice []) = Inr None"
  "expandSagemakerFlowDefinitionOutputConfig (Slice []) = Inr None"
  "expandSagemakerFlowDefinitionHumanLoopRequestSource (Slice []) = Inr None"
  "expandSagemakerFlowDefinitionHumanLoopConfig es (Slice []) = Inr None"
  by (simp_all add: expandSagemakerFlowDefinitionHumanLoopActivationConfig_def
        expandSagemakerFlowDefinitionHumanLoopActivationConditionsConfig_def
        expandSagemakerFlowDefinitionOutputConfig_def
        expandSagemakerFlowDefinitionHumanLoopRequestSource_def
        expandSagemakerFlowDefinitionHumanLoopConfig_def)

text \<open>
  C1, as stated: flattening the expansion of a one-element \<open>human_loop_config\<close> list
  gives the list back. It does not: the integers come back as \<open>int64\<close> where the input
  holds \<open>int\<close>, and the two are different values of \<open>interface{}\<close>.
\<close>

theorem human_loop_config_round_trip_counterexample:
  "bind (expandSagemakerFlowDefinitionHumanLoopConfig (\<lambda>ks. NilSlice)
           (Slice [VMap [''human_task_ui_arn'' \<mapsto> VString ''arn:ui'',
                         ''task_count'' \<mapsto> VInt 1,
                         ''task_description'' \<mapsto> VString ''label'',
                         ''task_title'' \<mapsto> VString ''title'',
                         ''workteam_arn'' \<mapsto> VString ''arn:team'',
                         ''task_availability_lifetime_in_seconds'' \<mapsto> VInt 2,
                         ''task_time_limit_in_seconds'' \<mapsto> VInt 3]]))
        (\<lambda>c. Inr (asInterfaceSlice (flattenSagemakerFlowDefinitionHumanLoopConfig (\<lambda>l. {||}) c)))
   \<noteq> Inr (Slice [VMap [''human_task_ui_arn'' \<mapsto> VString ''arn:ui'',
                        ''task_count'' \<mapsto> VInt 1,
                        ''task_description'' \<mapsto> VString ''label'',
                        ''task_title'' \<mapsto> VString ''title'',
                        ''workteam_arn'' \<mapsto> VString ''arn:team'',
                        ''task_availability_lifetime_in_seconds'' \<mapsto> VInt 2,
                        ''task_time_limit_in_seconds'' \<mapsto> VInt 3]])"
  by (auto simp: expandSagemakerFlowDefinitionHumanLoopConfig_def
        flattenSagemakerFlowDefinitionHumanLoopConfig_def
        aws_String_def aws_StringValue_def aws_Int64_def aws_Int64Value_def Let_def
      dest!: fun_cong[of _ _ "''task_count''"])

text \<open>
  C1, amended: for a one-element list whose map holds the four strings, the three
  integers as \<open>int\<close> and \<open>task_keywords\<close> either absent or a non-empty string set,
  flattening the expansion gives the same map with each integer as an \<open>int64\<close> of the
  same value. The string set helpers are defined elsewhere; they are taken to return a
  non-nil list that flattens back to the set.
\<close>

theorem human_loop_config_round_trip_int64:
  assumes "kw = None \<or>
           (\<exists>ks. kw = Some ks \<and> ks \<noteq> {||} \<and> es ks \<noteq> NilSlice \<and> fs (es ks) = ks)"
  shows "bind (expandSagemakerFlowDefinitionHumanLoopConfig es
                 (Slice [VMap (humanLoopConfigMap VInt ui descr title team n life limit kw)]))
              (\<lambda>c. Inr (asInterfaceSlice (flattenSagemakerFlowDefinitionHumanLoopConfig fs c)))
         = Inr (Slice [VMap (humanLoopConfigMap VInt64 ui descr title team n life limit kw)])"
proof (cases kw)
  case None
  then show ?thesis
    by (simp add: expandSagemakerFlowDefinitionHumanLoopConfig_def
          flattenSagemakerFlowDefinitionHumanLoopConfig_def humanLoopConfigMap_def
          aws_String_def aws_StringValue_def aws_Int64_def aws_Int64Value_def Let_def)
next
  case (Some ks)
  with assms have "ks \<noteq> {||}" "es ks \<noteq> NilSlice" "fs (es ks) = ks" by auto
  with Some show ?thesis
    by (auto simp: expandSagemakerFlowDefinitionHumanLoopConfig_def
          flattenSagemakerFlowDefinitionHumanLoopConfig_def humanLoopConfigMap_def
          aws_String_def aws_StringValue_def aws_Int64_def aws_Int64Value_def Let_def
          fcard_pos fun_eq_iff)
qed

theorem human_loop_config_round_trip_int64_witness:
  "bind (expandSagemakerFlowDefinitionHumanLoopConfig
           (expandStringSet (exampleClient None (None, None)))
           (Slice [VMap (humanLoopConfigMap VInt ''arn:ui'' ''label'' ''title'' ''arn:team'' 1 2 3
                           (Some {|''urgent''|}))]))
        (\<lambda>c. Inr (asInterfaceSlice (flattenSagemakerFlowDefinitionHumanLoopConfig
                                      (flattenStringSet (exampleClient None (None, None))) c)))
   = Inr (Slice [VMap (humanLoopConfigMap VInt64 ''arn:ui'' ''label'' ''title'' ''arn:team'' 1 2 3
                         (Some {|''urgent''|}))])"
proof -
  let ?es = "expandStringSet (exampleClient None (None, None))"
  let ?fs = "flattenStringSet (exampleClient None (None, None))"
  have "Some {|''urgent''|} = None \<or>
        (\<exists>ks. Some {|''urgent''|} = Some ks \<and> ks \<noteq> {||} \<and> ?es ks \<noteq> NilSlice \<and> ?fs (?es ks) = ks)"
    by (simp add: exampleClient_def map_filter_Some)
  from human_loop_config_round_trip_int64[OF this] show ?thesis .
qed

text \<open>
  C4: for a one-element \<open>output_config\<close> list whose map holds \<open>s3_output_path\<close> and
  \<open>kms_key_id\<close> as strings, \<open>kms_key_id\<close> possibly empty, the expansion does not panic
  and flattening it gives the list back.
\<close>

theorem output_config_round_trip:
  "bind (expandSagemakerFlowDefinitionOutputConfig
           (Slice [VMap [''kms_key_id'' \<mapsto> VString k, ''s3_output_path'' \<mapsto> VString p]]))
        (\<lambda>c. Inr (asInterfaceSlice (flattenSagemakerFlowDefinitionOutputConfig c)))
   = Inr (Slice [VMap [''kms_key_id'' \<mapsto> VString k, ''s3_output_path'' \<mapsto> VString p]])"
  by (simp add: expandSagemakerFlowDefinitionOutputConfig_def
        flattenSagemakerFlowDefinitionOutputConfig_def aws_String_def aws_StringValue_def Let_def)

text \<open>
  C9: whatever \<open>DecodeJSONValue\<close> returns for the conditions string, also an error, the
  expand function returns a non-nil config holding the decoded value and reports nothing;
  whatever \<open>EncodeJSONValue\<close> returns, the flatten function returns a list of one map for
  a non-nil config.
\<close>

theorem json_errors_discarded:
  assumes "m ''human_loop_activation_conditions'' = Some (VString s)"
  shows "expandSagemakerFlowDefinitionHumanLoopActivationConditionsConfig dec (Slice (VMap m # rest))
           = Inr (Some \<lparr>HumanLoopActivationConditions = fst (dec s NoEscape)\<rparr>)
       \<and> flattenSagemakerFlowDefinitionHumanLoopActivationConditionsConfig enc (Some cfg)
           = Slice [[''human_loop_activation_conditions'' \<mapsto>
                       VString (fst (enc (HumanLoopActivationConditions cfg) NoEscape))]]"
  using assms
  by (simp add: expandSagemakerFlowDefinitionHumanLoopActivationConditionsConfig_def
        flattenSagemakerFlowDefinitionHumanLoopActivationConditionsConfig_def split_def)

theorem json_errors_discarded_witness:
  "snd (DecodeJSONValue (exampleClient None (None, None)) ''{not json'' NoEscape) \<noteq> None
   \<and> expandSagemakerFlowDefinitionHumanLoopActivationConditionsConfig
       (DecodeJSONValue (exampleClient None (None, None)))
       (Slice [VMap [''human_loop_activation_conditions'' \<mapsto> VString ''{not json'']])
     = Inr (Some \<lparr>HumanLoopActivationConditions = None\<rparr>)
   \<and> snd (EncodeJSONValue (exampleClient None (None, None)) None NoEscape) \<noteq> None
   \<and> flattenSagemakerFlowDefinitionHumanLoopActivationConditionsConfig
       (EncodeJSONValue (exampleClient None (None, None)))
       (Some \<lparr>HumanLoopActivationConditions = None\<rparr>)
     = Slice [[''human_loop_activation_conditions'' \<mapsto> VString []]]"
  using json_errors_discarded
          [of "[''human_loop_activation_conditions'' \<mapsto> VString ''{not json'']" "''{not json''"
              "DecodeJSONValue (exampleClient None (None, None))" "[]"
              "EncodeJSONValue (exampleClient None (None, None))"
              "\<lparr>HumanLoopActivationConditions = None\<rparr>"]
  by (simp add: exampleClient_def)

text \<open>
  C10: each of the five expand functions returns nil exactly when its input list is
  empty or starts with nil, and each flatten function returns the empty non-nil list
  for nil; so flattening the expansion of the empty list gives the empty list, and
  expanding the flattening of nil gives nil.
\<close>

theorem expand_flatten_nil_edges:
  "((expandSagemakerFlowDefinitionHumanLoopActivationConfig dec l = Inr None)
      = (len l = 0 \<or> first l = Inr VNil))
 \<and> ((expandSagemakerFlowDefinitionHumanLoopActivationConditionsConfig dec l = Inr None)
      = (len l = 0 \<or> first l = Inr VNil))
 \<and> ((expandSagemakerFlowDefinitionOutputConfig l = Inr None)
      = (len l = 0 \<or> first l = Inr VNil))
 \<and> ((expandSagemakerFlowDefinitionHumanLoopRequestSource l = Inr None)
      = (len l = 0 \<or> first l = Inr VNil))
 \<and> ((expandSagemakerFlowDefinitionHumanLoopConfig es l = Inr None)
      = (len l = 0 \<or> first l = Inr VNil))
 \<and> flattenSagemakerFlowDefinitionHumanLoopActivationConfig enc None = Slice []
 \<and> flattenSagemakerFlowDefinitionHumanLoopActivationConditionsConfig enc None = Slice []
 \<and> flattenSagemakerFlowDefinitionOutputConfig None = Slice []
 \<and> flattenSagemakerFlowDefinitionHumanLoopRequestSource None = Slice []
 \<and> flattenSagemakerFlowDefinitionHumanLoopConfig fs None = Slice []
 \<and> bind (expandSagemakerFlowDefinitionHumanLoopActivationConfig dec (Slice []))
      (\<lambda>c. Inr (flattenSagemakerFlowDefinitionHumanLoopActivationConfig enc c)) = Inr (Slice [])
 \<and> bind (expandSagemakerFlowDefinitionHumanLoopActivationConditionsConfig dec (Slice []))
      (\<lambda>c. Inr (flattenSagemakerFlowDefinitionHumanLoopActivationConditionsConfig enc c))
      = Inr (Slice [])
 \<and> bind (expandSagemakerFlowDefinitionOutputConfig (Slice []))
      (\<lambda>c. Inr (flattenSagemakerFlowDefinitionOutputConfig c)) = Inr (Slice [])
 \<and> bind (expandSagemakerFlowDefinitionHumanLoopRequestSource (Slice []))
      (\<lambda>c. Inr (flattenSagemakerFlowDefinitionHumanLoopRequestSource c)) = Inr (Slice [])
 \<and> bind (expandSagemakerFlowDefinitionHumanLoopConfig es (Slice []))
      (\<lambda>c. Inr (flattenSagemakerFlowDefinitionHumanLoopConfig fs c)) = Inr (Slice [])
 \<and> expandSagemakerFlowDefinitionHumanLoopActivationConfig dec
      (asInterfaceSlice (flattenSagemakerFlowDefinitionHumanLoopActivationConfig enc None))
      = Inr None
 \<and> expandSagemakerFlowDefinitionHumanLoopActivationConditionsConfig dec
      (asInterfaceSlice (flattenSagemakerFlowDefinitionHumanLoopActivationConditionsConfig enc None))
      = Inr None
 \<and> expandSagemakerFlowDefinitionOutputConfig
      (asInterfaceSlice (flattenSagemakerFlowDefinitionOutputConfig None)) = Inr None
 \<and> expandSagemakerFlowDefinitionHumanLoopRequestSource
      (asInterfaceSlice (flattenSagemakerFlowDefinitionHumanLoopRequestSource None)) = Inr None
 \<and> expandSagemakerFlowDefinitionHumanLoopConfig es
      (asInterfaceSlice (flattenSagemakerFlowDefinitionHumanLoopConfig fs None)) = Inr None"
  by (simp add: expand_activation_conditions_nil expand_activation_nil expand_output_nil
        expand_request_source_nil expand_human_loop_nil flatten_nil expand_empty)

section \<open>Properties of the resource operations\<close>

lemma hasPrefix_iff: "hasPrefix s p = (\<exists>t. s = p @ t)"
  by (induction s p rule: hasPrefix.induct) auto

lemma strings_Contains_iff: "strings_Contains s sub = (\<exists>p t. s = p @ sub @ t)"
proof (induction s)
  case Nil
  then show ?case by auto
next
  case (Cons c cs)
  show ?case
  proof
    assume "strings_Contains (c # cs) sub"
    then consider "hasPrefix (c # cs) sub" | "strings_Contains cs sub" by auto
    then show "\<exists>p t. c # cs = p @ sub @ t"
    proof cases
      case 1
      then obtain t where "c # cs = sub @ t" by (auto simp: hasPrefix_iff)
      then have "c # cs = [] @ sub @ t" by simp
      then show ?thesis by blast
    next
      case 2
      with Cons obtain p t where "cs = p @ sub @ t" by auto
      then have "c # cs = (c # p) @ sub @ t" by simp
      then show ?thesis by blast
    qed
  next
    assume "\<exists>p t. c # cs = p @ sub @ t"
    then obtain p t where pt: "c # cs = p @ sub @ t" by blast
    show "strings_Contains (c # cs) sub"
    proof (cases p)
      case Nil
      with pt have "hasPrefix (c # cs) sub" by (auto simp: hasPrefix_iff)
      then show ?thesis by simp
    next
      case (Cons a p')
      with pt have "cs = p' @ sub @ t" by simp
      then have "strings_Contains cs sub" using Cons.IH by blast
      then show ?thesis by simp
    qed
  qed
qed

lemma returnIfErr_Inr:
  "returnIfErr err msg d w rest = Inr x \<Longrightarrow>
     (\<exists>e. err = Some e \<and> x = (Some (Errorf msg e), d, w)) \<or> (err = None \<and> rest = Inr x)"
  by (auto simp: returnIfErr_def split: option.splits)

lemma finder_world:
  "calls (snd (finder_FlowDefinitionByName c n w)) = calls w @ [CallFlowDefinitionByName n]"
  "remote (snd (finder_FlowDefinitionByName c n w)) = snd (FlowDefinitionByName c n (remote w))"
  by (simp_all add: finder_FlowDefinitionByName_def split_def Let_def)

lemma listTags_world:
  "calls (snd (keyvaluetags_SagemakerListTags c a w)) = calls w @ [CallListTags a]"
  "remote (snd (keyvaluetags_SagemakerListTags c a w)) = snd (SagemakerListTags c a (remote w))"
  by (simp_all add: keyvaluetags_SagemakerListTags_def split_def Let_def)

lemma updateTags_world:
  "calls (snd (keyvaluetags_SagemakerUpdateTags c a old new w)) = calls w @ [CallUpdateTags a old new]"
  "remote (snd (keyvaluetags_SagemakerUpdateTags c a old new w)) =
     snd (SagemakerUpdateTags c a old new (remote w))"
  "fst (keyvaluetags_SagemakerUpdateTags c a old new w) =
     fst (SagemakerUpdateTags c a old new (remote w))"
  by (simp_all add: keyvaluetags_SagemakerUpdateTags_def split_def Let_def)

lemma readTags_world:
  assumes "readTags c a d w = Inr (e, d', w')"
  shows "w' = snd (keyvaluetags_SagemakerListTags c a w)"
  using assms
  by (auto simp: readTags_def Let_def split: prod.splits dest!: returnIfErr_Inr)

lemma readBlocks_world:
  assumes "readBlocks c fd d w = Inr (e, d', w')"
  shows "w' = w \<or> (\<exists>a. w' = snd (keyvaluetags_SagemakerListTags c a w))"
  using assms
  by (auto simp: readBlocks_def Let_def split: prod.splits dest!: returnIfErr_Inr readTags_world)

lemma Read_world:
  assumes "resourceAwsSagemakerFlowDefinitionRead c d w = Inr (e, d', w')"
  shows "w' = snd (finder_FlowDefinitionByName c (ResourceId d) w) \<or>
         (\<exists>a. w' = snd (keyvaluetags_SagemakerListTags c a
                          (snd (finder_FlowDefinitionByName c (ResourceId d) w))))"
  using assms
  by (auto simp: resourceAwsSagemakerFlowDefinitionRead_def Let_def
      split: prod.splits if_splits option.splits dest!: returnIfErr_Inr readBlocks_world)

lemma Read_calls:
  assumes "resourceAwsSagemakerFlowDefinitionRead c d w = Inr (e, d', w')"
  shows "\<exists>new. calls w' = calls w @ new \<and> filter mutating new = []"
  using Read_world[OF assms]
  by (auto simp: finder_world listTags_world)

lemma Read_remote:
  assumes "resourceAwsSagemakerFlowDefinitionRead c d w = Inr (e, d', w')"
    and "\<And>n r. snd (FlowDefinitionByName c n r) = r"
    and "\<And>a r. snd (SagemakerListTags c a r) = r"
  shows "remote w' = remote w"
  using Read_world[OF assms(1)] assms(2,3)
  by (auto simp: finder_world listTags_world)

lemma Update_cases:
  "resourceAwsSagemakerFlowDefinitionUpdate c d w =
     (if HasChange_tags_all d
      then (case fst (keyvaluetags_SagemakerUpdateTags c (arn d)
                        (VMap (tags_all_prior d)) (VMap (tags_all d)) w) of
              Some e \<Rightarrow>
                Inr (Some (Errorf (''error updating SageMaker Flow Definition ('' @ ResourceId d
                                     @ '') tags: '') e),
                     d,
                     snd (keyvaluetags_SagemakerUpdateTags c (arn d)
                            (VMap (tags_all_prior d)) (VMap (tags_all d)) w))
            | None \<Rightarrow>
                resourceAwsSagemakerFlowDefinitionRead c d
                  (snd (keyvaluetags_SagemakerUpdateTags c (arn d)
                          (VMap (tags_all_prior d)) (VMap (tags_all d)) w)))
      else resourceAwsSagemakerFlowDefinitionRead c d w)"
  by (auto simp add: resourceAwsSagemakerFlowDefinitionUpdate_def GetChange_tags_all_def
        returnIfErr_def split_def Let_def split: option.splits)

lemma expand_zero_len:
  "len v = 0 \<Longrightarrow> expandSagemakerFlowDefinitionHumanLoopActivationConfig dec v = Inr None"
  "len v = 0 \<Longrightarrow> expandSagemakerFlowDefinitionHumanLoopRequestSource v = Inr None"
  by (simp_all add: expand_activation_nil expand_request_source_nil)

text \<open>
  C2: for a resource that is not new, when the lookup by the stored ID reports not-found,
  Read clears the ID and returns nil; for any other lookup error it returns that error
  wrapped and leaves the resource data, the ID with it, as it was.
\<close>

theorem read_drift_detection:
  assumes "\<not> IsNewResource d"
    and "FlowDefinitionByName c (ResourceId d) (remote w) = ((fd, err), r)"
  shows "(NotFound c err \<longrightarrow>
            resourceAwsSagemakerFlowDefinitionRead c d w =
              Inr (None, d\<lparr>ResourceId := []\<rparr>,
                   \<lparr>remote = r, calls = calls w @ [CallFlowDefinitionByName (ResourceId d)]\<rparr>))
       \<and> (\<forall>e. \<not> NotFound c err \<and> err = Some e \<longrightarrow>
            resourceAwsSagemakerFlowDefinitionRead c d w =
              Inr (Some (Errorf (''error reading SageMaker Flow Definition ('' @ ResourceId d
                                   @ ''): '') e),
                   d,
                   \<lparr>remote = r, calls = calls w @ [CallFlowDefinitionByName (ResourceId d)]\<rparr>))"
  using assms
  by (auto simp add: resourceAwsSagemakerFlowDefinitionRead_def finder_FlowDefinitionByName_def
        SetId_def returnIfErr_def)

theorem read_drift_detection_witness:
  "resourceAwsSagemakerFlowDefinitionRead
     (exampleClient None (None, Some (NotFoundError ''flow-1''))) exampleResourceData exampleWorld
   = Inr (None, exampleResourceData\<lparr>ResourceId := []\<rparr>,
          \<lparr>remote = (0, 0), calls = [CallFlowDefinitionByName ''flow-1'']\<rparr>)
 \<and> resourceAwsSagemakerFlowDefinitionRead
     (exampleClient None (None, Some (OtherError ''timeout''))) exampleResourceData exampleWorld
   = Inr (Some (Errorf ''error reading SageMaker Flow Definition (flow-1): '' (OtherError ''timeout'')),
          exampleResourceData,
          \<lparr>remote = (0, 0), calls = [CallFlowDefinitionByName ''flow-1'']\<rparr>)"
proof -
  let ?c1 = "exampleClient None (None, Some (NotFoundError ''flow-1''))"
  let ?c2 = "exampleClient None (None, Some (OtherError ''timeout''))"
  have new: "\<not> IsNewResource exampleResourceData"
    by (simp add: exampleResourceData_def)
  have l1: "FlowDefinitionByName ?c1 (ResourceId exampleResourceData) (remote exampleWorld)
              = ((None, Some (NotFoundError ''flow-1'')), (0, 0))"
    by (simp add: exampleClient_def exampleWorld_def)
  have l2: "FlowDefinitionByName ?c2 (ResourceId exampleResourceData) (remote exampleWorld)
              = ((None, Some (OtherError ''timeout'')), (0, 0))"
    by (simp add: exampleClient_def exampleWorld_def)
  have n1: "NotFound ?c1 (Some (NotFoundError ''flow-1''))"
    by (simp add: exampleClient_def)
  have n2: "\<not> NotFound ?c2 (Some (OtherError ''timeout''))"
    by (simp add: exampleClient_def)
  have id: "ResourceId exampleResourceData = ''flow-1''" "calls exampleWorld = []"
    by (simp_all add: exampleResourceData_def exampleWorld_def)
  from read_drift_detection[OF new l1] n1 read_drift_detection[OF new l2] n2
  show ?thesis by (simp add: id)
qed

text \<open>
  C3: when the configuration blocks expand without a panic, Create calls
  \<open>CreateFlowDefinition\<close> once, with the name, the role, the expanded blocks and the tags;
  if the call fails, Create returns the error wrapped and the resource data is as it was,
  the ID not set; if it succeeds, Create sets the ID to \<open>flow_definition_name\<close> and
  returns what Read returns.
\<close>

theorem create_maps_config:
  assumes hl: "expandSagemakerFlowDefinitionHumanLoopConfig (expandStringSet c)
                 (human_loop_config d) = Inr hlc"
    and oc: "expandSagemakerFlowDefinitionOutputConfig (output_config d) = Inr oc"
    and ac: "expandSagemakerFlowDefinitionHumanLoopActivationConfig (DecodeJSONValue c)
               (human_loop_activation_config d) = Inr ac"
    and rs: "expandSagemakerFlowDefinitionHumanLoopRequestSource
               (human_loop_request_source d) = Inr rs"
    and input: "input = \<lparr>FlowDefinitionName = Some (flow_definition_name d),
                         HumanLoopActivationConfig = ac,
                         HumanLoopConfig = hlc,
                         HumanLoopRequestSource = rs,
                         OutputConfig = oc,
                         RoleArn = Some (role_arn d),
                         Tags = (if MergeTags c (keyvaluetags_New c (tags d)) = Map.empty
                                 then NilSlice
                                 else SagemakerTags c
                                        (IgnoreAws c (MergeTags c (keyvaluetags_New c (tags d)))))\<rparr>"
    and resp: "CreateFlowDefinition c input (remote w) = (err, r)"
    and w1: "w1 = \<lparr>remote = r, calls = calls w @ [CallCreateFlowDefinition input]\<rparr>"
  shows "(\<forall>e. err = Some e \<longrightarrow>
            resourceAwsSagemakerFlowDefinitionCreate c d w =
              Inr (Some (Errorf (''error creating SageMaker Flow Definition (''
                                   @ flow_definition_name d @ ''): '') e),
                   d, w1))
       \<and> (err = None \<longrightarrow>
            resourceAwsSagemakerFlowDefinitionCreate c d w =
              resourceAwsSagemakerFlowDefinitionRead c
                (d\<lparr>ResourceId := flow_definition_name d\<rparr>) w1)"
proof -
  let ?v = "human_loop_activation_config d"
  let ?u = "human_loop_request_source d"
  have a: "(if ?v \<noteq> Slice [] \<and> len ?v > 0
            then bind (expandSagemakerFlowDefinitionHumanLoopActivationConfig (DecodeJSONValue c) ?v)
                   (\<lambda>x. Inr (i\<lparr>HumanLoopActivationConfig := x\<rparr>))
            else Inr i) = Inr (i\<lparr>HumanLoopActivationConfig := ac\<rparr>)"
    if "HumanLoopActivationConfig i = None" for i :: CreateFlowDefinitionInput
    using ac that expand_zero_len(1)[of ?v "DecodeJSONValue c"] by (cases "len ?v = 0") auto
  have b: "(if ?u \<noteq> Slice [] \<and> len ?u > 0
            then bind (expandSagemakerFlowDefinitionHumanLoopRequestSource ?u)
                   (\<lambda>x. Inr (i\<lparr>HumanLoopRequestSource := x\<rparr>))
            else Inr i) = Inr (i\<lparr>HumanLoopRequestSource := rs\<rparr>)"
    if "HumanLoopRequestSource i = None" for i :: CreateFlowDefinitionInput
    using rs that expand_zero_len(2)[of ?u] by (cases "len ?u = 0") auto
  show ?thesis
    using resp
    by (auto simp: resourceAwsSagemakerFlowDefinitionCreate_def hl oc a b input w1 GetOk_def
          Let_def conn_CreateFlowDefinition_def aws_String_def returnIfErr_def SetId_def)
qed

lemma example_expansions:
  "expandSagemakerFlowDefinitionHumanLoopConfig (expandStringSet (exampleClient a l))
     (human_loop_config exampleResourceData) = Inr (HumanLoopConfig exampleCreateInput)"
  "expandSagemakerFlowDefinitionOutputConfig (output_config exampleResourceData)
     = Inr (OutputConfig exampleCreateInput)"
  "expandSagemakerFlowDefinitionHumanLoopActivationConfig (DecodeJSONValue (exampleClient a l))
     (human_loop_activation_config exampleResourceData) = Inr None"
  "expandSagemakerFlowDefinitionHumanLoopRequestSource
     (human_loop_request_source exampleResourceData) = Inr None"
  by (simp_all add: exampleResourceData_def exampleCreateInput_def expand_empty
        expandSagemakerFlowDefinitionHumanLoopConfig_def humanLoopConfigMap_def
        expandSagemakerFlowDefinitionOutputConfig_def
        aws_String_def aws_Int64_def Let_def)

lemma example_input:
  "exampleCreateInput =
     \<lparr>FlowDefinitionName = Some (flow_definition_name exampleResourceData),
      HumanLoopActivationConfig = None,
      HumanLoopConfig = HumanLoopConfig exampleCreateInput,
      HumanLoopRequestSource = None,
      OutputConfig = OutputConfig exampleCreateInput,
      RoleArn = Some (role_arn exampleResourceData),
      Tags = (if MergeTags (exampleClient a l)
                   (keyvaluetags_New (exampleClient a l) (tags exampleResourceData)) = Map.empty
              then NilSlice
              else SagemakerTags (exampleClient a l)
                     (IgnoreAws (exampleClient a l)
                        (MergeTags (exampleClient a l)
                           (keyvaluetags_New (exampleClient a l) (tags exampleResourceData)))))\<rparr>"
proof -
  have "stringTags Map.empty = Map.empty" by (rule ext) simp
  then show ?thesis
    by (simp add: exampleClient_def exampleResourceData_def exampleCreateInput_def)
qed

theorem create_maps_config_witness:
  "resourceAwsSagemakerFlowDefinitionCreate
     (exampleClient (Some (OtherError ''limit exceeded'')) (None, None))
     exampleResourceData exampleWorld
   = Inr (Some (Errorf ''error creating SageMaker Flow Definition (flow-1): ''
                  (OtherError ''limit exceeded'')),
          exampleResourceData,
          \<lparr>remote = (1, 0), calls = [CallCreateFlowDefinition exampleCreateInput]\<rparr>)
 \<and> resourceAwsSagemakerFlowDefinitionCreate
     (exampleClient None (Some exampleFlowDefinition, None)) exampleResourceData exampleWorld
   = resourceAwsSagemakerFlowDefinitionRead
       (exampleClient None (Some exampleFlowDefinition, None))
       (exampleResourceData\<lparr>ResourceId := ''flow-1''\<rparr>)
       \<lparr>remote = (1, 0), calls = [CallCreateFlowDefinition exampleCreateInput]\<rparr>"
proof -
  let ?c1 = "exampleClient (Some (OtherError ''limit exceeded'')) (None, None)"
  let ?c2 = "exampleClient None (Some exampleFlowDefinition, None)"
  let ?w1 = "\<lparr>remote = (Suc 0, 0::nat), calls = calls exampleWorld @ [CallCreateFlowDefinition exampleCreateInput]\<rparr>"
  have r1: "CreateFlowDefinition ?c1 exampleCreateInput (remote exampleWorld)
              = (Some (OtherError ''limit exceeded''), (Suc 0, 0))"
    by (simp add: exampleClient_def exampleWorld_def)
  have r2: "CreateFlowDefinition ?c2 exampleCreateInput (remote exampleWorld) = (None, (Suc 0, 0))"
    by (simp add: exampleClient_def exampleWorld_def)
  have nm: "flow_definition_name exampleResourceData = ''flow-1''" "calls exampleWorld = []"
    by (simp_all add: exampleResourceData_def exampleWorld_def)
  from create_maps_config[OF example_expansions example_input r1, of ?w1]
       create_maps_config[OF example_expansions example_input r2, of ?w1]
  show ?thesis by (simp add: nm)
qed

text \<open>
  C7, as stated: Update returns the result of Read. It does not when the tag update
  fails: the error of the tag update is returned and Read is not called, although Read
  would have returned nil.
\<close>

theorem update_tag_failure_counterexample:
  "resourceAwsSagemakerFlowDefinitionUpdate
     (exampleClient (Some (OtherError ''throttled'')) (Some exampleFlowDefinition, None))
     exampleResourceData exampleWorld
   \<noteq> resourceAwsSagemakerFlowDefinitionRead
       (exampleClient (Some (OtherError ''throttled'')) (Some exampleFlowDefinition, None))
       exampleResourceData
       \<lparr>remote = (0, 1),
         calls = [CallUpdateTags ''arn:flow-1'' (VMap Map.empty)
                    (VMap [''team'' \<mapsto> VString ''ml''])]\<rparr>
 \<and> resourceAwsSagemakerFlowDefinitionUpdate
     (exampleClient (Some (OtherError ''throttled'')) (Some exampleFlowDefinition, None))
     exampleResourceData exampleWorld
   \<noteq> resourceAwsSagemakerFlowDefinitionRead
       (exampleClient (Some (OtherError ''throttled'')) (Some exampleFlowDefinition, None))
       exampleResourceData exampleWorld
 \<and> resourceAwsSagemakerFlowDefinitionUpdate
     (exampleClient (Some (OtherError ''throttled'')) (Some exampleFlowDefinition, None))
     exampleResourceData exampleWorld
   = Inr (Some (Errorf ''error updating SageMaker Flow Definition (flow-1) tags: ''
                  (OtherError ''throttled'')),
          exampleResourceData,
          \<lparr>remote = (0, 1),
            calls = [CallUpdateTags ''arn:flow-1'' (VMap Map.empty)
                       (VMap [''team'' \<mapsto> VString ''ml''])]\<rparr>)
 \<and> resourceAwsSagemakerFlowDefinitionRead
     (exampleClient (Some (OtherError ''throttled'')) (Some exampleFlowDefinition, None))
     exampleResourceData
     \<lparr>remote = (0, 1),
       calls = [CallUpdateTags ''arn:flow-1'' (VMap Map.empty)
                  (VMap [''team'' \<mapsto> VString ''ml''])]\<rparr>
   = Inr (None, exampleResourceData,
          \<lparr>remote = (0, 1),
            calls = [CallUpdateTags ''arn:flow-1'' (VMap Map.empty)
                       (VMap [''team'' \<mapsto> VString ''ml'']),
                     CallFlowDefinitionByName ''flow-1'', CallListTags ''arn:flow-1'']\<rparr>)
 \<and> resourceAwsSagemakerFlowDefinitionRead
     (exampleClient (Some (OtherError ''throttled'')) (Some exampleFlowDefinition, None))
     exampleResourceData exampleWorld
   = Inr (None, exampleResourceData,
          \<lparr>remote = (0, 0),
            calls = [CallFlowDefinitionByName ''flow-1'', CallListTags ''arn:flow-1'']\<rparr>)"
proof -
  let ?c = "exampleClient (Some (OtherError ''throttled'')) (Some exampleFlowDefinition, None)"
  have "[''team'' \<mapsto> VString ''ml''] \<noteq> Map.empty" by simp
  then have m: "Map.empty \<noteq> [''team'' \<mapsto> VString ''ml'']" by (rule not_sym)
  have rd: "resourceAwsSagemakerFlowDefinitionRead ?c exampleResourceData w
              = Inr (None, exampleResourceData,
                     \<lparr>remote = remote w,
                       calls = calls w @ [CallFlowDefinitionByName ''flow-1'',
                                          CallListTags ''arn:flow-1'']\<rparr>)" for w
    by (simp add: resourceAwsSagemakerFlowDefinitionRead_def readBlocks_def readTags_def
          finder_FlowDefinitionByName_def keyvaluetags_SagemakerListTags_def returnIfErr_def
          exampleClient_def exampleResourceData_def exampleFlowDefinition_def
          aws_StringValue_def Let_def)
  have up: "resourceAwsSagemakerFlowDefinitionUpdate ?c exampleResourceData exampleWorld
   = Inr (Some (Errorf ''error updating SageMaker Flow Definition (flow-1) tags: ''
                  (OtherError ''throttled'')),
          exampleResourceData,
          \<lparr>remote = (0, 1),
            calls = [CallUpdateTags ''arn:flow-1'' (VMap Map.empty)
                       (VMap [''team'' \<mapsto> VString ''ml''])]\<rparr>)"
    using m
    by (simp add: resourceAwsSagemakerFlowDefinitionUpdate_def HasChange_tags_all_def
          GetChange_tags_all_def keyvaluetags_SagemakerUpdateTags_def returnIfErr_def
          exampleClient_def exampleResourceData_def exampleWorld_def Let_def)
  show ?thesis
    by (simp add: up rd) (simp add: exampleWorld_def)
qed

text \<open>
  C7, amended: Update calls the tag-update API exactly when \<open>tags_all\<close> has changed and
  makes no other mutating call; when that call fails it returns the error wrapped, without
  reading; otherwise it returns what Read returns. Whatever the tag update leaves
  unchanged on the remote side (\<open>P\<close>, which stands for every attribute that is no tag) is
  unchanged by Update, the lookup and the tag listing changing nothing.
\<close>

theorem update_reconciles_only_tags:
  fixes P :: "'r \<Rightarrow> 'a"
  assumes reads: "\<And>n r. snd (FlowDefinitionByName c n r) = r"
                 "\<And>a r. snd (SagemakerListTags c a r) = r"
    and tagsOnly: "\<And>a old new r. P (snd (SagemakerUpdateTags c a old new r)) = P r"
  shows "resourceAwsSagemakerFlowDefinitionUpdate c d w =
           (if HasChange_tags_all d
            then (case SagemakerUpdateTags c (arn d) (VMap (tags_all_prior d)) (VMap (tags_all d))
                         (remote w) of
                    (Some e, r) \<Rightarrow>
                      Inr (Some (Errorf (''error updating SageMaker Flow Definition (''
                                           @ ResourceId d @ '') tags: '') e),
                           d,
                           \<lparr>remote = r,
                             calls = calls w @ [CallUpdateTags (arn d) (VMap (tags_all_prior d))
                                                  (VMap (tags_all d))]\<rparr>)
                  | (None, r) \<Rightarrow>
                      resourceAwsSagemakerFlowDefinitionRead c d
                        \<lparr>remote = r,
                          calls = calls w @ [CallUpdateTags (arn d) (VMap (tags_all_prior d))
                                               (VMap (tags_all d))]\<rparr>)
            else resourceAwsSagemakerFlowDefinitionRead c d w)
       \<and> (\<forall>e d' w'. resourceAwsSagemakerFlowDefinitionUpdate c d w = Inr (e, d', w') \<longrightarrow>
            take (length (calls w)) (calls w') = calls w
          \<and> filter mutating (callsSince w w') =
              (if HasChange_tags_all d
               then [CallUpdateTags (arn d) (VMap (tags_all_prior d)) (VMap (tags_all d))]
               else [])
          \<and> P (remote w') = P (remote w))"
proof (intro conjI allI impI)
  show "resourceAwsSagemakerFlowDefinitionUpdate c d w =
           (if HasChange_tags_all d
            then (case SagemakerUpdateTags c (arn d) (VMap (tags_all_prior d)) (VMap (tags_all d))
                         (remote w) of
                    (Some e, r) \<Rightarrow>
                      Inr (Some (Errorf (''error updating SageMaker Flow Definition (''
                                           @ ResourceId d @ '') tags: '') e),
                           d,
                           \<lparr>remote = r,
                             calls = calls w @ [CallUpdateTags (arn d) (VMap (tags_all_prior d))
                                                  (VMap (tags_all d))]\<rparr>)
                  | (None, r) \<Rightarrow>
                      resourceAwsSagemakerFlowDefinitionRead c d
                        \<lparr>remote = r,
                          calls = calls w @ [CallUpdateTags (arn d) (VMap (tags_all_prior d))
                                               (VMap (tags_all d))]\<rparr>)
            else resourceAwsSagemakerFlowDefinitionRead c d w)"
    by (auto simp add: resourceAwsSagemakerFlowDefinitionUpdate_def GetChange_tags_all_def
          returnIfErr_def keyvaluetags_SagemakerUpdateTags_def Let_def
        split: prod.splits option.splits)
next
  fix e d' w'
  assume run: "resourceAwsSagemakerFlowDefinitionUpdate c d w = Inr (e, d', w')"
  let ?u = "keyvaluetags_SagemakerUpdateTags c (arn d) (VMap (tags_all_prior d))
              (VMap (tags_all d)) w"
  have "take (length (calls w)) (calls w') = calls w
      \<and> filter mutating (callsSince w w') =
          (if HasChange_tags_all d
           then [CallUpdateTags (arn d) (VMap (tags_all_prior d)) (VMap (tags_all d))]
           else [])
      \<and> P (remote w') = P (remote w)"
  proof (cases "HasChange_tags_all d")
    case False
    with run have r: "resourceAwsSagemakerFlowDefinitionRead c d w = Inr (e, d', w')"
      by (simp add: Update_cases)
    from Read_calls[OF r] obtain new where "calls w' = calls w @ new" "filter mutating new = []"
      by blast
    with Read_remote[OF r reads] False show ?thesis by (simp add: callsSince_def)
  next
    case True
    show ?thesis
    proof (cases "fst ?u")
      case (Some err)
      with run True have "w' = snd ?u" by (auto simp: Update_cases)
      with True tagsOnly show ?thesis by (simp add: updateTags_world callsSince_def)
    next
      case None
      with run True have r: "resourceAwsSagemakerFlowDefinitionRead c d (snd ?u) = Inr (e, d', w')"
        by (simp add: Update_cases)
      from Read_calls[OF r] obtain new
        where "calls w' = calls (snd ?u) @ new" "filter mutating new = []"
        by blast
      with Read_remote[OF r reads] True tagsOnly show ?thesis
        by (simp add: updateTags_world callsSince_def)
    qed
  qed
  then show "take (length (calls w)) (calls w') = calls w"
    and "filter mutating (callsSince w w') =
          (if HasChange_tags_all d
           then [CallUpdateTags (arn d) (VMap (tags_all_prior d)) (VMap (tags_all d))]
           else [])"
    and "P (remote w') = P (remote w)"
    by blast+
qed

theorem update_reconciles_only_tags_witness:
  "resourceAwsSagemakerFlowDefinitionUpdate
     (exampleClient None (Some exampleFlowDefinition, None)) exampleResourceData exampleWorld
   = Inr (None, exampleResourceData,
          \<lparr>remote = (0, 1),
            calls = [CallUpdateTags ''arn:flow-1'' (VMap Map.empty)
                       (VMap [''team'' \<mapsto> VString ''ml'']),
                     CallFlowDefinitionByName ''flow-1'', CallListTags ''arn:flow-1'']\<rparr>)
 \<and> filter mutating
       (callsSince exampleWorld
          \<lparr>remote = (0, 1),
            calls = [CallUpdateTags ''arn:flow-1'' (VMap Map.empty)
                       (VMap [''team'' \<mapsto> VString ''ml'']),
                     CallFlowDefinitionByName ''flow-1'', CallListTags ''arn:flow-1'']\<rparr>)
     = [CallUpdateTags ''arn:flow-1'' (VMap Map.empty) (VMap [''team'' \<mapsto> VString ''ml''])]
 \<and> fst (remote \<lparr>remote = (0, 1::nat),
                  calls = [CallUpdateTags ''arn:flow-1'' (VMap Map.empty)
                             (VMap [''team'' \<mapsto> VString ''ml'']),
                           CallFlowDefinitionByName ''flow-1'', CallListTags ''arn:flow-1'']\<rparr>)
     = fst (remote exampleWorld)"
proof -
  let ?c = "exampleClient None (Some exampleFlowDefinition, None)"
  let ?w = "\<lparr>remote = (0::nat, 1::nat),
             calls = [CallUpdateTags ''arn:flow-1'' (VMap Map.empty)
                        (VMap [''team'' \<mapsto> VString ''ml'']),
                      CallFlowDefinitionByName ''flow-1'', CallListTags ''arn:flow-1'']\<rparr>"
  have reads: "\<And>n r. snd (FlowDefinitionByName ?c n r) = r"
              "\<And>a r. snd (SagemakerListTags ?c a r) = r"
    by (simp_all add: exampleClient_def)
  have tagsOnly: "\<And>a old new r. fst (snd (SagemakerUpdateTags ?c a old new r)) = fst r"
    by (simp add: exampleClient_def)
  have "[''team'' \<mapsto> VString ''ml''] \<noteq> Map.empty" by simp
  then have m: "Map.empty \<noteq> [''team'' \<mapsto> VString ''ml'']" by (rule not_sym)
  have facts: "HasChange_tags_all exampleResourceData" "arn exampleResourceData = ''arn:flow-1''"
    "tags_all_prior exampleResourceData = Map.empty"
    "tags_all exampleResourceData = [''team'' \<mapsto> VString ''ml'']"
    using m by (simp_all add: HasChange_tags_all_def exampleResourceData_def)
  have rd: "resourceAwsSagemakerFlowDefinitionRead ?c exampleResourceData w
              = Inr (None, exampleResourceData,
                     \<lparr>remote = remote w,
                       calls = calls w @ [CallFlowDefinitionByName ''flow-1'',
                                          CallListTags ''arn:flow-1'']\<rparr>)" for w
    by (simp add: resourceAwsSagemakerFlowDefinitionRead_def readBlocks_def readTags_def
          finder_FlowDefinitionByName_def keyvaluetags_SagemakerListTags_def returnIfErr_def
          exampleClient_def exampleResourceData_def exampleFlowDefinition_def
          aws_StringValue_def Let_def)
  have up: "SagemakerUpdateTags ?c a old new (remote exampleWorld) = (None, (0, 1))" for a old new
    by (simp add: exampleClient_def exampleWorld_def)
  note inst = update_reconciles_only_tags[of ?c fst exampleResourceData exampleWorld,
               OF reads tagsOnly]
  from inst have run: "resourceAwsSagemakerFlowDefinitionUpdate ?c exampleResourceData exampleWorld
                        = Inr (None, exampleResourceData, ?w)"
    by (simp add: facts up rd) (simp add: exampleWorld_def)
  from inst run have "filter mutating (callsSince exampleWorld ?w)
        = [CallUpdateTags ''arn:flow-1'' (VMap Map.empty) (VMap [''team'' \<mapsto> VString ''ml''])]
      \<and> fst (remote ?w) = fst (remote exampleWorld)"
    by (simp add: facts)
  with run show ?thesis by simp
qed

text \<open>
  C8: Delete returns nil exactly when \<open>DeleteFlowDefinition\<close> succeeds or fails with an
  AWS error of code \<open>ValidationException\<close> whose message contains \<open>The work team\<close>; for
  every other error it returns the error wrapped.
\<close>

theorem delete_error_classification:
  assumes "DeleteFlowDefinition c (Some (ResourceId d)) (remote w) = (err, r)"
  shows "((fst (resourceAwsSagemakerFlowDefinitionDelete c d w) = None) =
            (err = None \<or>
             (\<exists>e p t. err = Some e \<and>
                asAwsError e = Some (''ValidationException'', p @ ''The work team'' @ t))))
       \<and> (fst (resourceAwsSagemakerFlowDefinitionDelete c d w) \<noteq> None \<longrightarrow>
            (\<exists>e. err = Some e \<and>
               fst (resourceAwsSagemakerFlowDefinitionDelete c d w) =
                 Some (Errorf (''error deleting SageMaker Flow Definition ('' @ ResourceId d
                                 @ ''): '') e)))"
  using assms
  by (auto simp: resourceAwsSagemakerFlowDefinitionDelete_def conn_DeleteFlowDefinition_def
        ErrMessageContains_def aws_String_def strings_Contains_iff split: option.splits)

theorem delete_error_classification_witness:
  "fst (resourceAwsSagemakerFlowDefinitionDelete (exampleClient None (None, None))
          exampleResourceData exampleWorld) = None
 \<and> fst (resourceAwsSagemakerFlowDefinitionDelete
          (exampleClient (Some (AwsError ''ValidationException''
                                  ''The work team is in use'')) (None, None))
          exampleResourceData exampleWorld) = None
 \<and> fst (resourceAwsSagemakerFlowDefinitionDelete
          (exampleClient (Some (AwsError ''ResourceInUse'' ''busy'')) (None, None))
          exampleResourceData exampleWorld)
     = Some (Errorf ''error deleting SageMaker Flow Definition (flow-1): ''
               (AwsError ''ResourceInUse'' ''busy''))"
proof -
  let ?ok = "exampleClient None (None, None)"
  let ?team = "exampleClient (Some (AwsError ''ValidationException'' ''The work team is in use''))
                 (None, None)"
  let ?busy = "exampleClient (Some (AwsError ''ResourceInUse'' ''busy'')) (None, None)"
  have r: "DeleteFlowDefinition (exampleClient a l) (Some (ResourceId exampleResourceData))
             (remote exampleWorld) = (a, (Suc 0, 0))" for a l
    by (simp add: exampleClient_def exampleWorld_def)
  have split: "''The work team is in use'' = [] @ ''The work team'' @ '' is in use''" by simp
  have "\<exists>e p t. Some (AwsError ''ValidationException'' ''The work team is in use'') = Some e \<and>
          asAwsError e = Some (''ValidationException'', p @ ''The work team'' @ t)"
    using split by (metis asAwsError.simps(1))
  with delete_error_classification[OF r, of None "(None, None)"]
       delete_error_classification[OF r, of "Some (AwsError ''ValidationException''
                                  ''The work team is in use'')" "(None, None)"]
       delete_error_classification[OF r, of "Some (AwsError ''ResourceInUse'' ''busy'')" "(None, None)"]
  show ?thesis
    by (simp add: exampleResourceData_def)
qed

section \<open>Properties of schema validation\<close>

subsection \<open>The matcher decides the language\<close>

lemma conc_Nil_iff: "([] \<in> conc A B) = ([] \<in> A \<and> [] \<in> B)"
  by (auto simp: conc_def)

lemma conc_Cons_iff:
  "(a # w \<in> conc A B) =
     (([] \<in> A \<and> a # w \<in> B) \<or> (\<exists>u v. w = u @ v \<and> a # u \<in> A \<and> v \<in> B))"
proof
  assume "a # w \<in> conc A B"
  then obtain xs ys where xy: "a # w = xs @ ys" "xs \<in> A" "ys \<in> B"
    by (auto simp: conc_def)
  show "([] \<in> A \<and> a # w \<in> B) \<or> (\<exists>u v. w = u @ v \<and> a # u \<in> A \<and> v \<in> B)"
  proof (cases xs)
    case Nil
    with xy show ?thesis by simp
  next
    case (Cons x xs')
    with xy have "w = xs' @ ys" "a # xs' \<in> A" by auto
    with xy(3) show ?thesis by blast
  qed
next
  assume "([] \<in> A \<and> a # w \<in> B) \<or> (\<exists>u v. w = u @ v \<and> a # u \<in> A \<and> v \<in> B)"
  then show "a # w \<in> conc A B"
  proof
    assume "[] \<in> A \<and> a # w \<in> B"
    then have "[] @ (a # w) \<in> conc A B" unfolding conc_def by blast
    then show ?thesis by simp
  next
    assume "\<exists>u v. w = u @ v \<and> a # u \<in> A \<and> v \<in> B"
    then obtain u v where "w = u @ v" "a # u \<in> A" "v \<in> B" by blast
    then have "(a # u) @ v \<in> conc A B" unfolding conc_def by blast
    with \<open>w = u @ v\<close> show ?thesis by simp
  qed
qed

lemma star_Cons_iff:
  "(a # w \<in> star A) = (\<exists>u v. w = u @ v \<and> a # u \<in> A \<and> v \<in> star A)"
proof
  assume "a # w \<in> star A"
  then show "\<exists>u v. w = u @ v \<and> a # u \<in> A \<and> v \<in> star A"
  proof (induction "a # w" rule: star.induct)
    case (star_step xs ys)
    show ?case
    proof (cases xs)
      case Nil
      with star_step show ?thesis by simp
    next
      case (Cons x xs')
      with star_step(1,2,4) show ?thesis by auto
    qed
  qed
next
  assume "\<exists>u v. w = u @ v \<and> a # u \<in> A \<and> v \<in> star A"
  then obtain u v where "w = u @ v" "a # u \<in> A" "v \<in> star A" by blast
  then have "(a # u) @ v \<in> star A" by (intro star.star_step)
  with \<open>w = u @ v\<close> show "a # w \<in> star A" by simp
qed

lemma nullable_lang: "nullable r = ([] \<in> lang r)"
  by (induction r) (auto simp: conc_Nil_iff intro: star.star_empty)

lemma deriv_lang: "(w \<in> lang (deriv a r)) = (a # w \<in> lang r)"
proof (induction r arbitrary: w)
  case (Seq r s)
  have A: "(w \<in> conc (lang (deriv a r)) (lang s)) =
             (\<exists>u v. w = u @ v \<and> a # u \<in> lang r \<and> v \<in> lang s)"
    using Seq.IH(1) by (auto simp: conc_def)
  show ?case
    using Seq.IH(2)[of w] by (auto simp: A conc_Cons_iff nullable_lang)
next
  case (Star r)
  have "(w \<in> conc (lang (deriv a r)) (star (lang r))) =
             (\<exists>u v. w = u @ v \<and> a # u \<in> lang r \<and> v \<in> star (lang r))"
    using Star.IH by (auto simp: conc_def)
  then show ?case
    by (simp add: star_Cons_iff)
qed auto

lemma matches_lang: "matches r w = (w \<in> lang r)"
  by (induction w arbitrary: r) (simp_all add: nullable_lang deriv_lang)

subsection \<open>Decoding\<close>

lemma runeWidth_ascii: "byte b < 0x80 \<Longrightarrow> runeWidth (b # bs) = 1"
  by simp

declare runeWidth.simps(2) [simp del]

lemma concat_decodeRunes: "concat (decodeRunes s) = s"
  by (induction s rule: decodeRunes.induct) simp_all

lemma decodeRunes_ascii:
  "\<forall>c\<in>set s. byte c < 0x80 \<Longrightarrow> decodeRunes s = map (\<lambda>c. [c]) s"
  by (induction s) (simp_all add: runeWidth_ascii)

lemma decodeRunes_nonempty: "r \<in> set (decodeRunes s) \<Longrightarrow> r \<noteq> []"
  by (induction s rule: decodeRunes.induct) auto

lemma decodeRunes_ascii_head:
  "r \<in> set (decodeRunes s) \<Longrightarrow> byte (hd r) < 0x80 \<Longrightarrow> r = [hd r]"
  by (induction s rule: decodeRunes.induct) (auto simp: runeWidth_ascii)

lemma singleton_runes_ascii:
  assumes "\<forall>r\<in>set (decodeRunes s). \<exists>c. r = [c] \<and> byte c < 0x80"
  shows "\<forall>c\<in>set s. byte c < 0x80"
proof
  fix c assume "c \<in> set s"
  then have "c \<in> set (concat (decodeRunes s))" by (simp add: concat_decodeRunes)
  then obtain r where "r \<in> set (decodeRunes s)" "c \<in> set r" by auto
  with assms show "byte c < 0x80" by fastforce
qed

subsection \<open>Lowercase letters and digits\<close>

lemma range_cases:
  "((97 \<le> n \<and> n \<le> 122) \<or> (48 \<le> n \<and> n \<le> 57)) =
   (n \<in> {97, 98, 99, 100, 101, 102, 103, 104, 105, 106, 107, 108, 109, 110, 111, 112, 113, 114,
          115, 116, 117, 118, 119, 120, 121, 122, 48, 49, 50, 51, 52, 53, 54, 55, 56, 57 :: nat})"
  by (simp only: insert_iff empty_iff) arith

lemma char_eq_byte: "(c = d) = (of_char c = (of_char d :: nat))"
  by auto

lemma alnum_set:
  "((97 \<le> byte c \<and> byte c \<le> 122) \<or> (48 \<le> byte c \<and> byte c \<le> 57)) = (c \<in> lowerAlnum)"
  unfolding range_cases lowerAlnum_def
  by (simp add: byte_def char_eq_byte)

lemma alnum_class:
  "atomMatches (Class [(CHR ''a'', CHR ''z''), (CHR ''0'', CHR ''9'')]) r =
     (\<exists>c. r = [c] \<and> c \<in> lowerAlnum)"
proof -
  have "atomMatches (Class [(CHR ''a'', CHR ''z''), (CHR ''0'', CHR ''9'')]) r =
          (\<exists>c. r = [c] \<and> ((97 \<le> byte c \<and> byte c \<le> 122) \<or> (48 \<le> byte c \<and> byte c \<le> 57)))"
    by (auto simp: inRange_def byte_def split: list.splits)
  then show ?thesis by (simp only: alnum_set)
qed

lemma alnum_ascii: "c \<in> lowerAlnum \<Longrightarrow> byte c < 0x80"
  unfolding alnum_set[symmetric] by auto

lemma hyphen_not_alnum: "CHR ''-'' \<notin> lowerAlnum"
  by (simp add: lowerAlnum_def)

subsection \<open>The language of the flow definition name pattern\<close>

lemma star_singleton: "(w \<in> star {[h]}) = (\<forall>r\<in>set w. r = h)"
proof
  assume "w \<in> star {[h]}"
  then show "\<forall>r\<in>set w. r = h" by (induction rule: star.induct) auto
next
  assume "\<forall>r\<in>set w. r = h"
  then show "w \<in> star {[h]}"
  proof (induction w)
    case Nil
    show ?case by (rule star.star_empty)
  next
    case (Cons r w)
    then have "[h] \<in> {[h]}" "w \<in> star {[h]}" "r = h" by auto
    then have "[h] @ w \<in> star {[h]}" by (intro star.star_step)
    with \<open>r = h\<close> show ?case by simp
  qed
qed

lemma group_iff:
  "(g \<in> conc (star {[h]}) {[a] | a. a \<in> A}) =
     (\<exists>hs a. g = hs @ [a] \<and> (\<forall>r\<in>set hs. r = h) \<and> a \<in> A)"
  by (auto simp: conc_def star_singleton)

lemma groups_shape:
  assumes "w \<in> star (conc (star {[h]}) {[a] | a. a \<in> A})"
  shows "(\<forall>r\<in>set w. r \<in> A \<or> r = h) \<and> (w = [] \<or> last w \<in> A)"
  using assms
proof (induction rule: star.induct)
  case star_empty
  show ?case by simp
next
  case (star_step g w)
  from star_step(1) obtain hs a where g: "g = hs @ [a]" "\<forall>r\<in>set hs. r = h" "a \<in> A"
    by (auto simp: group_iff)
  with star_step(3) show ?case by auto
qed

lemma shape_groups:
  assumes "h \<notin> A"
  shows "(\<forall>r\<in>set w. r \<in> A \<or> r = h) \<Longrightarrow> w \<noteq> [] \<Longrightarrow> last w \<in> A \<Longrightarrow>
         (\<forall>r\<in>set hs. r = h) \<Longrightarrow> hs @ w \<in> star (conc (star {[h]}) {[a] | a. a \<in> A})"
proof (induction w arbitrary: hs)
  case Nil
  then show ?case by simp
next
  case (Cons r w)
  let ?B = "conc (star {[h]}) {[a] | a. a \<in> A}"
  show ?case
  proof (cases "r \<in> A")
    case True
    with Cons.prems(4) have g: "hs @ [r] \<in> ?B" by (auto simp: group_iff)
    have "w \<in> star ?B"
    proof (cases "w = []")
      case True
      then show ?thesis by (simp add: star.star_empty)
    next
      case False
      with Cons.prems have "\<forall>r\<in>set w. r \<in> A \<or> r = h" "last w \<in> A" by auto
      with Cons.IH[of "[]"] False show ?thesis by simp
    qed
    with g have "(hs @ [r]) @ w \<in> star ?B" by (intro star.star_step)
    then show ?thesis by simp
  next
    case False
    with Cons.prems(1) have rh: "r = h" by auto
    with False Cons.prems(3) assms have ne: "w \<noteq> []" by (cases w) auto
    with Cons.prems have "\<forall>r\<in>set w. r \<in> A \<or> r = h" "last w \<in> A" by auto
    moreover from rh Cons.prems(4) have "\<forall>x\<in>set (hs @ [r]). x = h" by auto
    ultimately have "(hs @ [r]) @ w \<in> star ?B" using ne by (intro Cons.IH)
    then show ?thesis by simp
  qed
qed

lemma groups_iff:
  assumes "h \<notin> A"
  shows "(w \<in> star (conc (star {[h]}) {[a] | a. a \<in> A})) =
           ((\<forall>r\<in>set w. r \<in> A \<or> r = h) \<and> (w = [] \<or> last w \<in> A))"
proof
  assume "w \<in> star (conc (star {[h]}) {[a] | a. a \<in> A})"
  then show "(\<forall>r\<in>set w. r \<in> A \<or> r = h) \<and> (w = [] \<or> last w \<in> A)"
    by (rule groups_shape)
next
  assume s: "(\<forall>r\<in>set w. r \<in> A \<or> r = h) \<and> (w = [] \<or> last w \<in> A)"
  show "w \<in> star (conc (star {[h]}) {[a] | a. a \<in> A})"
  proof (cases "w = []")
    case True
    then show ?thesis by (simp add: star.star_empty)
  next
    case False
    with s shape_groups[OF assms, of w "[]"] show ?thesis by simp
  qed
qed

lemma conc_atom:
  "(rs \<in> conc {[a] | a. a \<in> A} B) = (\<exists>a w. rs = a # w \<and> a \<in> A \<and> w \<in> B)"
proof
  assume "rs \<in> conc {[a] | a. a \<in> A} B"
  then obtain a w where "rs = [a] @ w" "a \<in> A" "w \<in> B" by (auto simp: conc_def)
  then show "\<exists>a w. rs = a # w \<and> a \<in> A \<and> w \<in> B" by auto
next
  assume "\<exists>a w. rs = a # w \<and> a \<in> A \<and> w \<in> B"
  then obtain a w where "rs = [a] @ w" "[a] \<in> {[a] | a. a \<in> A}" "w \<in> B" by auto
  then show "rs \<in> conc {[a] | a. a \<in> A} B" unfolding conc_def by blast
qed

lemma flowDefinitionName_lang:
  "(rs \<in> lang flowDefinitionNameRegex) =
     (rs \<noteq> [] \<and>
      (\<forall>r\<in>set rs. (\<exists>c. r = [c] \<and> c \<in> lowerAlnum) \<or> r = ''-'') \<and>
      (\<exists>c. hd rs = [c] \<and> c \<in> lowerAlnum) \<and>
      (\<exists>c. last rs = [c] \<and> c \<in> lowerAlnum))"
proof -
  let ?A = "{r. \<exists>c. r = [c] \<and> c \<in> lowerAlnum}"
  let ?cls = "Class [(CHR ''a'', CHR ''z''), (CHR ''0'', CHR ''9'')]"
  have h: "''-'' \<notin> ?A" by (simp add: hyphen_not_alnum)
  have atoms: "{[a] | a. atomMatches ?cls a} = {[a] | a. a \<in> ?A}"
    by (simp only: alnum_class mem_Collect_eq)
  have hy: "{[a] | a. atomMatches (Char CHR ''-'') a} = {[''-'']}"
    by auto
  have l: "lang flowDefinitionNameRegex =
             conc {[a] | a. a \<in> ?A} (star (conc (star {[''-'']}) {[a] | a. a \<in> ?A}))"
    unfolding flowDefinitionNameRegex_def lang.simps atoms hy ..
  have "(rs \<in> lang flowDefinitionNameRegex) =
          (\<exists>a w. rs = a # w \<and> a \<in> ?A \<and>
                 w \<in> star (conc (star {[''-'']}) {[a] | a. a \<in> ?A}))"
    unfolding l by (rule conc_atom)
  also have "\<dots> = (\<exists>a w. rs = a # w \<and> a \<in> ?A \<and>
                 (\<forall>r\<in>set w. r \<in> ?A \<or> r = ''-'') \<and> (w = [] \<or> last w \<in> ?A))"
    by (simp only: groups_iff[OF h])
  also have "\<dots> = (rs \<noteq> [] \<and> (\<forall>r\<in>set rs. r \<in> ?A \<or> r = ''-'') \<and> hd rs \<in> ?A \<and> last rs \<in> ?A)"
    by (cases rs) auto
  finally show ?thesis by simp
qed

lemma flowDefinitionName_match:
  "MatchString flowDefinitionNameRegex s =
     (s \<noteq> [] \<and>
      (\<forall>c\<in>set s. c \<in> lowerAlnum \<or> c = CHR ''-'') \<and>
      hd s \<in> lowerAlnum \<and>
      last s \<in> lowerAlnum)"
proof -
  let ?single = "\<lambda>c::char. [c]"
  have shape: "(map ?single s \<in> lang flowDefinitionNameRegex) =
                 (s \<noteq> [] \<and> (\<forall>c\<in>set s. c \<in> lowerAlnum \<or> c = CHR ''-'') \<and>
                  hd s \<in> lowerAlnum \<and> last s \<in> lowerAlnum)"
  proof (cases "s = []")
    case True
    then show ?thesis by (simp add: flowDefinitionName_lang)
  next
    case False
    then have "hd (map ?single s) = [hd s]" "last (map ?single s) = [last s]"
      by (simp_all add: hd_map last_map)
    with False show ?thesis by (simp add: flowDefinitionName_lang)
  qed
  have hyphen: "byte CHR ''-'' < 0x80" by (simp add: byte_def)
  show ?thesis
  proof
    assume m: "MatchString flowDefinitionNameRegex s"
    then have "decodeRunes s \<in> lang flowDefinitionNameRegex"
      by (simp add: MatchString_def matches_lang)
    then have all: "\<forall>r\<in>set (decodeRunes s). (\<exists>c. r = [c] \<and> c \<in> lowerAlnum) \<or> r = ''-''"
      by (simp add: flowDefinitionName_lang)
    have "\<forall>r\<in>set (decodeRunes s). \<exists>c. r = [c] \<and> byte c < 0x80"
    proof
      fix r assume "r \<in> set (decodeRunes s)"
      with all consider (a) c where "r = [c]" "c \<in> lowerAlnum" | (b) "r = ''-''" by blast
      then show "\<exists>c. r = [c] \<and> byte c < 0x80"
      proof cases
        case a
        with alnum_ascii show ?thesis by blast
      next
        case b
        with hyphen show ?thesis by simp
      qed
    qed
    then have "\<forall>c\<in>set s. byte c < 0x80" by (rule singleton_runes_ascii)
    then have "decodeRunes s = map ?single s" by (rule decodeRunes_ascii)
    with m have "map ?single s \<in> lang flowDefinitionNameRegex"
      by (simp add: MatchString_def matches_lang)
    with shape show "s \<noteq> [] \<and> (\<forall>c\<in>set s. c \<in> lowerAlnum \<or> c = CHR ''-'') \<and>
               hd s \<in> lowerAlnum \<and> last s \<in> lowerAlnum"
      by blast
  next
    assume a: "s \<noteq> [] \<and> (\<forall>c\<in>set s. c \<in> lowerAlnum \<or> c = CHR ''-'') \<and>
               hd s \<in> lowerAlnum \<and> last s \<in> lowerAlnum"
    have "\<forall>c\<in>set s. byte c < 0x80"
    proof
      fix c assume "c \<in> set s"
      with a have "c \<in> lowerAlnum \<or> c = CHR ''-''" by blast
      with alnum_ascii hyphen show "byte c < 0x80" by blast
    qed
    then have "decodeRunes s = map ?single s" by (rule decodeRunes_ascii)
    moreover from a shape have "map ?single s \<in> lang flowDefinitionNameRegex" by blast
    ultimately show "MatchString flowDefinitionNameRegex s"
      by (simp add: MatchString_def matches_lang)
  qed
qed

lemma accepted_All2:
  "accepted (validation_All [f, g]) k i = (accepted f k i \<and> accepted g k i)"
  by (simp add: accepted_def split_def Let_def)

lemma accepted_StringLenBetween:
  "accepted (validation_StringLenBetween lo hi) k (VString s) =
     (lo \<le> int (length s) \<and> int (length s) \<le> hi)"
  by (auto simp: accepted_def validation_StringLenBetween_def)

lemma accepted_StringMatch:
  "accepted (validation_StringMatch r msg) k (VString s) = MatchString r s"
  by (simp add: accepted_def validation_StringMatch_def)

text \<open>
  C5: a string is accepted for \<open>flow_definition_name\<close> if and only if its length is
  between 1 and 63 and it matches \<open>^[a-z0-9](-*[a-z0-9])*$\<close>; it matches if and only if
  it is a non-empty string of lowercase letters, digits and hyphens that starts and ends
  with a letter or digit.
\<close>

theorem flow_definition_name_validation:
  "accepted flow_definition_name_ValidateFunc k (VString s) =
     (1 \<le> length s \<and> length s \<le> 63 \<and> MatchString flowDefinitionNameRegex s)
 \<and> MatchString flowDefinitionNameRegex s =
     (s \<noteq> [] \<and>
      (\<forall>c\<in>set s. c \<in> lowerAlnum \<or> c = CHR ''-'') \<and>
      hd s \<in> lowerAlnum \<and>
      last s \<in> lowerAlnum)"
proof
  show "accepted flow_definition_name_ValidateFunc k (VString s) =
          (1 \<le> length s \<and> length s \<le> 63 \<and> MatchString flowDefinitionNameRegex s)"
    unfolding flow_definition_name_ValidateFunc_def accepted_All2 accepted_StringLenBetween
      accepted_StringMatch
    by auto
next
  show "MatchString flowDefinitionNameRegex s =
     (s \<noteq> [] \<and>
      (\<forall>c\<in>set s. c \<in> lowerAlnum \<or> c = CHR ''-'') \<and>
      hd s \<in> lowerAlnum \<and>
      last s \<in> lowerAlnum)"
    by (rule flowDefinitionName_match)
qed

theorem flow_definition_name_validation_witness:
  "accepted flow_definition_name_ValidateFunc ''flow_definition_name'' (VString ''my-flow-1'')
 \<and> \<not> accepted flow_definition_name_ValidateFunc ''flow_definition_name'' (VString ''my-flow-'')"
proof -
  have "MatchString flowDefinitionNameRegex ''my-flow-1''"
    by code_simp
  moreover have "last ''my-flow-'' \<notin> lowerAlnum"
    by (simp add: lowerAlnum_def)
  ultimately show ?thesis
    using flow_definition_name_validation[of "''flow_definition_name''" "''my-flow-1''"]
          flow_definition_name_validation[of "''flow_definition_name''" "''my-flow-''"]
    by simp
qed

subsection \<open>The language of the output path pattern\<close>

lemma conc_iff: "(w \<in> conc A B) = (\<exists>u v. w = u @ v \<and> u \<in> A \<and> v \<in> B)"
  by (auto simp: conc_def)

lemma lang_literal: "lang (literal cs) = {map (\<lambda>c. [c]) cs}"
  by (induction cs) (auto simp: conc_def)

lemma s3OutputPath_lang:
  assumes "rs \<in> lang s3OutputPathRegex"
  shows "\<exists>p x rest. rs = map (\<lambda>c. [c]) p @ x # rest \<and> (p = ''https://'' \<or> p = ''s3://'') \<and> x \<noteq> ''/''"
proof -
  from assms obtain u v x t
    where rs: "rs = u @ v @ [x] @ t"
      and u: "u \<in> lang (literal ''https'') \<union> lang (literal ''s3'')"
      and v: "v \<in> lang (literal ''://'')"
      and x: "atomMatches (NotChar CHR ''/'') x"
    unfolding s3OutputPathRegex_def lang.simps conc_iff by blast
  from u have "u = map (\<lambda>c. [c]) ''https'' \<or> u = map (\<lambda>c. [c]) ''s3''"
    unfolding lang_literal by blast
  moreover from v have "v = map (\<lambda>c. [c]) ''://''"
    unfolding lang_literal by blast
  ultimately have "u @ v = map (\<lambda>c. [c]) ''https://'' \<or> u @ v = map (\<lambda>c. [c]) ''s3://''"
    by auto
  then obtain p where p: "u @ v = map (\<lambda>c. [c]) p" "p = ''https://'' \<or> p = ''s3://''"
    by blast
  from rs p(1) have "rs = map (\<lambda>c. [c]) p @ x # t" by simp
  with p(2) x show ?thesis by auto
qed

lemma concat_singletons: "concat (map (\<lambda>c. [c]) p) = p"
  by (induction p) simp_all

lemma s3OutputPath_prefix:
  assumes "MatchString s3OutputPathRegex s"
  shows "\<exists>c rest. (s = ''https://'' @ c # rest \<or> s = ''s3://'' @ c # rest) \<and> c \<noteq> CHR ''/''"
proof -
  from assms have "decodeRunes s \<in> lang s3OutputPathRegex"
    by (simp add: MatchString_def matches_lang)
  then obtain p x rest
    where rs: "decodeRunes s = map (\<lambda>c. [c]) p @ x # rest"
      and p: "p = ''https://'' \<or> p = ''s3://''" and x: "x \<noteq> ''/''"
    using s3OutputPath_lang by blast
  from rs have mem: "x \<in> set (decodeRunes s)" by simp
  then have ne: "x \<noteq> []" by (rule decodeRunes_nonempty)
  have "hd x \<noteq> CHR ''/''"
  proof
    assume h: "hd x = CHR ''/''"
    then have "byte (hd x) < 0x80" by (simp add: byte_def)
    with mem have "x = [hd x]" by (rule decodeRunes_ascii_head)
    with h x show False by simp
  qed
  moreover have "s = p @ hd x # (tl x @ concat rest)"
  proof -
    have "s = concat (decodeRunes s)" by (simp add: concat_decodeRunes)
    also have "\<dots> = p @ x @ concat rest" by (simp add: rs concat_singletons)
    finally show ?thesis using ne by simp
  qed
  ultimately show ?thesis using p by blast
qed

text \<open>
  C6: a string is accepted for \<open>s3_output_path\<close> if and only if its length is between
  1 and 512 and it matches \<open>^(https|s3)://([^/])/?(.*)$\<close>; every accepted string starts
  with \<open>https://\<close> or \<open>s3://\<close> followed by a character that is not a slash.
\<close>

theorem s3_output_path_validation:
  "accepted s3_output_path_ValidateFunc k (VString s) =
     (1 \<le> length s \<and> length s \<le> 512 \<and> MatchString s3OutputPathRegex s)
 \<and> (accepted s3_output_path_ValidateFunc k (VString s) \<longrightarrow>
       (\<exists>c rest. (s = ''https://'' @ c # rest \<or> s = ''s3://'' @ c # rest) \<and> c \<noteq> CHR ''/''))"
proof -
  have a: "accepted s3_output_path_ValidateFunc k (VString s) =
             (1 \<le> length s \<and> length s \<le> 512 \<and> MatchString s3OutputPathRegex s)"
    unfolding s3_output_path_ValidateFunc_def accepted_All2 accepted_StringLenBetween
      accepted_StringMatch
    by auto
  with s3OutputPath_prefix[of s] show ?thesis by blast
qed

theorem s3_output_path_validation_witness:
  "accepted s3_output_path_ValidateFunc ''s3_output_path'' (VString ''s3://bucket/out'')
 \<and> (\<exists>c rest. (''s3://bucket/out'' = ''https://'' @ c # rest \<or>
                ''s3://bucket/out'' = ''s3://'' @ c # rest) \<and> c \<noteq> CHR ''/'')"
proof -
  have "MatchString s3OutputPathRegex ''s3://bucket/out''"
    by code_simp
  then show ?thesis
    using s3_output_path_validation[of "''s3_output_path''" "''s3://bucket/out''"]
    by simp
qed

end
